theory Spec2Isabelle
  imports Complex_Main "HOL-Library.Sublist"
begin

text \<open>
  A shallow embedding of the command shell of \<^verbatim>\<open>src/lib.js\<close>: the parser, the command
  registry (\<^verbatim>\<open>CommandService\<close>), the diagnostics log, the output buffer, the
  \<^verbatim>\<open>service\<close> command, \<^verbatim>\<open>OS.runSingle\<close> / \<^verbatim>\<open>OS.runChain\<close> and the execution
  queue (\<^verbatim>\<open>CommandExecService\<close>). The first part holds the definitions, the second part
  the lemmas and the theorems about them.
\<close>

chapter \<open>The program\<close>

section \<open>Strings\<close>

text \<open>
  A JavaScript string is modelled as a \<open>string\<close>: the list of its code units, restricted to
  the range U+0000 .. U+00FF. \<open>trim\<close> is \<^verbatim>\<open>String.prototype.trim\<close>; in that range the
  white space it strips is TAB, LF, VT, FF, CR, SPACE and NBSP.
\<close>

abbreviation bslash :: char where "bslash \<equiv> CHR 0x5C"
abbreviation squote :: char where "squote \<equiv> CHR 0x27"
abbreviation dquote :: char where "dquote \<equiv> CHR 0x22"

definition js_ws :: "char \<Rightarrow> bool" where
  "js_ws c = (c \<in> set [CHR 0x09, CHR 0x0A, CHR 0x0B, CHR 0x0C, CHR 0x0D, CHR 0x20, CHR 0xA0])"

definition trim :: "string \<Rightarrow> string" where
  "trim s = rev (dropWhile js_ws (rev (dropWhile js_ws s)))"

text \<open>\<^verbatim>\<open>s.split(c)\<close> for a one-character separator: the segments between its occurrences.\<close>

fun split_on :: "char \<Rightarrow> string \<Rightarrow> string list" where
  "split_on c [] = [[]]"
| "split_on c (x # xs) =
     (if x = c then [] # split_on c xs
      else (case split_on c xs of y # ys \<Rightarrow> (x # y) # ys | [] \<Rightarrow> [[x]]))"

text \<open>\<^verbatim>\<open>xs.join(sep)\<close>.\<close>

fun join :: "string \<Rightarrow> string list \<Rightarrow> string" where
  "join sep [] = []"
| "join sep [x] = x"
| "join sep (x # y # ys) = x @ sep @ join sep (y # ys)"

text \<open>\<^verbatim>\<open>String(n)\<close> for a natural number: its decimal digits.\<close>

fun show_nat :: "nat \<Rightarrow> string" where
  "show_nat n = (if n < 10 then [char_of (48 + n)] else show_nat (n div 10) @ [char_of (48 + n mod 10)])"

declare show_nat.simps [simp del]

definition is_digit :: "char \<Rightarrow> bool" where
  "is_digit c = (48 \<le> (of_char c :: nat) \<and> (of_char c :: nat) \<le> 57)"

text \<open>
  \<^verbatim>\<open>String.prototype.toLowerCase\<close> on code units up to U+00FF: A-Z and the Latin-1 capitals
  U+00C0 .. U+00DE (but the multiplication sign U+00D7) move up by 32.
\<close>

definition lower_char :: "char \<Rightarrow> char" where
  "lower_char c =
     (let n = (of_char c :: nat)
      in if (65 \<le> n \<and> n \<le> 90) \<or> (192 \<le> n \<and> n \<le> 222 \<and> n \<noteq> 215) then char_of (n + 32) else c)"

definition toLowerCase :: "string \<Rightarrow> string" where
  "toLowerCase s = map lower_char s"

text \<open>\<^verbatim>\<open>s.padEnd(n, " ")\<close>.\<close>

definition padEnd :: "nat \<Rightarrow> string \<Rightarrow> string" where
  "padEnd n s = s @ replicate (n - length s) (CHR '' '')"

section \<open>The parser\<close>

subsection \<open>\<^verbatim>\<open>OS.parsePipeline\<close>\<close>

text \<open>\<^verbatim>\<open>if (current.trim()) parts.push(current.trim())\<close>.\<close>

definition push_stage :: "string list \<Rightarrow> string \<Rightarrow> string list" where
  "push_stage parts current = (if trim current \<noteq> [] then parts @ [trim current] else parts)"

text \<open>The \<^verbatim>\<open>for\<close> loop of \<^verbatim>\<open>parsePipeline\<close> over the remaining input, and its epilogue.\<close>

fun pp_loop :: "string \<Rightarrow> string list \<Rightarrow> string \<Rightarrow> bool \<Rightarrow> bool \<Rightarrow> bool \<Rightarrow> string list" where
  "pp_loop [] parts current inSingle inDouble escape = push_stage parts current"
| "pp_loop (ch # rest) parts current inSingle inDouble escape =
     (if escape then pp_loop rest parts (current @ [ch]) inSingle inDouble False
      else if ch = bslash then pp_loop rest parts (current @ [ch]) inSingle inDouble True
      else if ch = squote \<and> \<not> inDouble then pp_loop rest parts (current @ [ch]) (\<not> inSingle) inDouble False
      else if ch = dquote \<and> \<not> inSingle then pp_loop rest parts (current @ [ch]) inSingle (\<not> inDouble) False
      else if ch = CHR ''|'' \<and> \<not> inSingle \<and> \<not> inDouble then
        pp_loop rest (push_stage parts current) [] inSingle inDouble False
      else pp_loop rest parts (current @ [ch]) inSingle inDouble False)"

definition parsePipeline :: "string \<Rightarrow> string list" where
  "parsePipeline input = pp_loop input [] [] False False False"

subsection \<open>\<^verbatim>\<open>OS.parseCommandFragment\<close>\<close>

text \<open>
  A JavaScript number: a finite double is the rational it denotes (the sign of zero is not
  modelled).
\<close>

datatype jsnum = NaN | PosInf | NegInf | Fin rat

text \<open>A flag value is a string, a boolean or a number.\<close>

datatype jsval = VStr string | VBool bool | VNum jsnum

text \<open>
  A plain object with string keys, in insertion order. Assigning to an existing key keeps
  its place. Only own properties are modelled, not those inherited from
  \<^verbatim>\<open>Object.prototype\<close>.
\<close>

type_synonym 'v obj = "(string \<times> 'v) list"

fun obj_set :: "'v obj \<Rightarrow> string \<Rightarrow> 'v \<Rightarrow> 'v obj" where
  "obj_set [] k v = [(k, v)]"
| "obj_set ((k', v') # m) k v = (if k' = k then (k, v) # m else (k', v') # obj_set m k v)"

definition obj_get :: "'v obj \<Rightarrow> string \<Rightarrow> 'v option" where
  "obj_get m k = map_of m k"

record fragment =
  frag_name :: "string option"
  frag_args :: "string list"
  frag_flags :: "jsval obj"

text \<open>
  The \<^verbatim>\<open>while\<close> loop: \<open>args\<close> and \<open>quotedArgs\<close> grow together. A backslash before a space,
  a quote or a backslash consumes two characters.
\<close>

fun pcf_loop ::
  "string \<Rightarrow> string \<Rightarrow> string list \<Rightarrow> bool list \<Rightarrow> bool \<Rightarrow> bool \<Rightarrow> bool \<Rightarrow> string list \<times> bool list" where
  "pcf_loop [] current args quotedArgs inDoubleQuotes inSingleQuotes tokenStartedQuoted =
     (if current \<noteq> [] then (args @ [current], quotedArgs @ [tokenStartedQuoted])
      else (args, quotedArgs))"
| "pcf_loop [c] current args quotedArgs inDoubleQuotes inSingleQuotes tokenStartedQuoted =
     (if c = bslash then
        pcf_loop [] (current @ [bslash]) args quotedArgs inDoubleQuotes inSingleQuotes tokenStartedQuoted
      else if c = dquote \<and> \<not> inSingleQuotes then
        pcf_loop [] current args quotedArgs (\<not> inDoubleQuotes) inSingleQuotes
          (if \<not> inDoubleQuotes \<and> current = [] then True else tokenStartedQuoted)
      else if c = squote \<and> \<not> inDoubleQuotes then
        pcf_loop [] current args quotedArgs inDoubleQuotes (\<not> inSingleQuotes)
          (if \<not> inSingleQuotes \<and> current = [] then True else tokenStartedQuoted)
      else if c = CHR '' '' \<and> \<not> inDoubleQuotes \<and> \<not> inSingleQuotes then
        (if current \<noteq> [] then
           pcf_loop [] [] (args @ [current]) (quotedArgs @ [tokenStartedQuoted])
             inDoubleQuotes inSingleQuotes False
         else pcf_loop [] current args quotedArgs inDoubleQuotes inSingleQuotes tokenStartedQuoted)
      else pcf_loop [] (current @ [c]) args quotedArgs inDoubleQuotes inSingleQuotes tokenStartedQuoted)"
| "pcf_loop (c # next # rest) current args quotedArgs inDoubleQuotes inSingleQuotes tokenStartedQuoted =
     (if c = bslash then
        (if next = CHR '' '' \<or> next = dquote \<or> next = squote \<or> next = bslash then
           pcf_loop rest (current @ [next]) args quotedArgs inDoubleQuotes inSingleQuotes tokenStartedQuoted
         else
           pcf_loop (next # rest) (current @ [bslash]) args quotedArgs
             inDoubleQuotes inSingleQuotes tokenStartedQuoted)
      else if c = dquote \<and> \<not> inSingleQuotes then
        pcf_loop (next # rest) current args quotedArgs (\<not> inDoubleQuotes) inSingleQuotes
          (if \<not> inDoubleQuotes \<and> current = [] then True else tokenStartedQuoted)
      else if c = squote \<and> \<not> inDoubleQuotes then
        pcf_loop (next # rest) current args quotedArgs inDoubleQuotes (\<not> inSingleQuotes)
          (if \<not> inSingleQuotes \<and> current = [] then True else tokenStartedQuoted)
      else if c = CHR '' '' \<and> \<not> inDoubleQuotes \<and> \<not> inSingleQuotes then
        (if current \<noteq> [] then
           pcf_loop (next # rest) [] (args @ [current]) (quotedArgs @ [tokenStartedQuoted])
             inDoubleQuotes inSingleQuotes False
         else
           pcf_loop (next # rest) current args quotedArgs
             inDoubleQuotes inSingleQuotes tokenStartedQuoted)
      else
        pcf_loop (next # rest) (current @ [c]) args quotedArgs
          inDoubleQuotes inSingleQuotes tokenStartedQuoted)"

text \<open>
  \<^verbatim>\<open>flags[flag] = value\<close> for \<^verbatim>\<open>[flag, value] = flagPart.split("=")\<close>, or
  \<^verbatim>\<open>flags[flagPart] = true\<close>.
\<close>

definition set_flag :: "string \<Rightarrow> jsval obj \<Rightarrow> jsval obj" where
  "set_flag flagPart flags =
     (if CHR ''='' \<in> set flagPart then
        (case split_on (CHR ''='') flagPart of
           flag # value # _ \<Rightarrow> obj_set flags flag (VStr value)
         | _ \<Rightarrow> flags)
      else obj_set flags flagPart (VBool True))"

text \<open>The classification loop over \<open>rest\<close> paired with \<open>restQuoted\<close>.\<close>

fun pcf_classify :: "(string \<times> bool) list \<Rightarrow> string list \<Rightarrow> jsval obj \<Rightarrow> string list \<times> jsval obj" where
  "pcf_classify [] positional flags = (positional, flags)"
| "pcf_classify ((token, isQuoted) # rest) positional flags =
     (if isQuoted then pcf_classify rest (positional @ [token]) flags
      else if prefix ''--'' token then pcf_classify rest positional (set_flag (drop 2 token) flags)
      else if prefix ''-'' token \<and> length token > 1 then
        pcf_classify rest positional (set_flag (drop 1 token) flags)
      else pcf_classify rest (positional @ [token]) flags)"

definition parseCommandFragment :: "string \<Rightarrow> fragment" where
  "parseCommandFragment input =
     (case pcf_loop input [] [] [] False False False of
        (args, quotedArgs) \<Rightarrow>
          (case args of
             [] \<Rightarrow> \<lparr>frag_name = None, frag_args = [], frag_flags = []\<rparr>
           | command # rest \<Rightarrow>
               (case pcf_classify (zip rest (drop 1 quotedArgs)) [] [] of
                  (positional, flags) \<Rightarrow>
                    \<lparr>frag_name = Some command, frag_args = positional, frag_flags = flags\<rparr>)))"

text \<open>An \<^verbatim>\<open>OSCommandChain\<close> is the list of its parts.\<close>

type_synonym chain = "fragment list"

definition parseCommand :: "string \<Rightarrow> chain" where
  "parseCommand str = map parseCommandFragment (parsePipeline str)"

text \<open>\<^verbatim>\<open>chain.simplify()\<close>; \<^verbatim>\<open>join\<close> prints an undefined name as the empty string.\<close>

definition simplify :: "chain \<Rightarrow> string" where
  "simplify c = join ''_'' (map (\<lambda>part. case frag_name part of None \<Rightarrow> [] | Some n \<Rightarrow> n) c)"

section \<open>The services and their state\<close>

text \<open>
  An output line \<^verbatim>\<open>{ type, content, loc }\<close>. \<open>loc\<close> is absent from some lines
  (\<^verbatim>\<open>undefined\<close>). \<open>content\<close> is the text of the line: where the source stores a number
  there (\<^verbatim>\<open>linecount\<close>), the model holds its decimal digits.
\<close>

record oline =
  otype :: string
  content :: string
  loc :: "string option"

text \<open>What a command handler returns: nothing, \<^verbatim>\<open>null\<close>, one object, an array, or a primitive.\<close>

datatype hresult = RUndefined | RNull | RObj oline | RArr "oline list" | RVal jsval

text \<open>
  What can be thrown: an \<^verbatim>\<open>OSError\<close>, the \<^verbatim>\<open>DOMException\<close> named \<^verbatim>\<open>AbortError\<close>, or any
  other error.
\<close>

datatype exn = OSError string | AbortError | JSError string

datatype outcome = Ret hresult | Throw exn

text \<open>
  A schema parameter. \<open>ptype\<close> is \<^verbatim>\<open>type\<close>, \<open>poptions\<close> is \<^verbatim>\<open>options\<close>, \<open>pdefault\<close> is
  \<^verbatim>\<open>default\<close>; an absent \<^verbatim>\<open>required\<close> counts as false wherever it is read. The
  descriptions are not modelled.
\<close>

record param =
  ptype :: string
  pname :: string
  pshort :: "string option"
  prequired :: bool
  pdatatype :: "string option"
  poptions :: "string list option"
  pipeableFrom :: "string option"
  pdefault :: "jsval option"

text \<open>
  A command body: \<open>balias\<close> and \<open>bhidden\<close> are \<^verbatim>\<open>body.options.alias\<close> and
  \<^verbatim>\<open>body.options.hidden\<close>. An entry of \<^verbatim>\<open>CommandService.commands\<close> pairs a body with its
  handler; \<open>'h\<close> is the type of handlers.
\<close>

record body =
  balias :: "string option"
  bhidden :: bool
  baliasOf :: "string option"
  bschema :: "param list"

type_synonym 'h entry = "body \<times> 'h"

text \<open>
  A member of the set \<^verbatim>\<open>CommandService.registeredCommands\<close>. The code only ever adds
  \<^verbatim>\<open>Set\<close> objects (\<open>MSet\<close>, with the names in insertion order); \<open>MStr\<close> is a string
  member, which is what \<^verbatim>\<open>registeredCommands.has(name)\<close> looks for. Each \<^verbatim>\<open>new Set()\<close> is
  an object of its own, so the set of members is a list and adding a new object appends.
\<close>

datatype member = MStr string | MSet "string list"

text \<open>\<^verbatim>\<open>Array.from(x)\<close> for a member \<open>x\<close>.\<close>

fun member_names :: "member \<Rightarrow> string list" where
  "member_names (MSet ns) = ns"
| "member_names (MStr s) = map (\<lambda>c. [c]) s"

text \<open>
  What is observed of the execution queue: \<^verbatim>\<open>os.runChain\<close> was called for the queue item
  of a promise, or the \<^verbatim>\<open>resolve\<close> / \<^verbatim>\<open>reject\<close> function of a promise was called.
\<close>

datatype hist = Started nat | Resolved nat hresult | Rejected nat

text \<open>
  The static fields of the five services. \<open>now\<close> is what \<^verbatim>\<open>Date.now()\<close> returns;
  \<open>screen\<close> collects the lines handed to the presenter (\<^verbatim>\<open>os.line\<close>, \<^verbatim>\<open>os.error\<close>,
  \<^verbatim>\<open>os.savior\<close>, \<^verbatim>\<open>os.htmlLine\<close>) and \<open>console\<close> what \<^verbatim>\<open>console.error\<close> receives.

  A queue item \<^verbatim>\<open>{ chain, resolve, reject }\<close> is the chain with the number of the
  promise whose \<^verbatim>\<open>resolve\<close> and \<^verbatim>\<open>reject\<close> it carries. \<open>frames\<close> are the calls of
  \<^verbatim>\<open>runNext\<close> suspended at an \<^verbatim>\<open>await\<close>, each with its local \<open>chain\<close> and its
  \<^verbatim>\<open>AbortController\<close>, which is numbered like the promise; \<open>aborted\<close> lists the
  controllers whose signal is aborted.
\<close>

record 'h os_state =
  now :: int
  diag_enabled :: bool
  diagnosticData :: "(string \<times> int) list"
  out_enabled :: bool
  buffer :: "oline list"
  screen :: "oline list"
  console :: "exn list"
  cmd_enabled :: bool
  commands :: "'h entry obj"
  registeredCommands :: "member list"
  savior_enabled :: bool
  exec_enabled :: bool
  exec_os :: bool
  queue :: "(nat \<times> chain) list"
  running :: bool
  currentAbort :: "nat option"
  currentReject :: "nat option"
  next_promise :: nat
  aborted :: "nat list"
  frames :: "(nat \<times> chain) list"
  history :: "hist list"

subsection \<open>\<^verbatim>\<open>DiagnosticService\<close>\<close>

definition diag_record :: "string \<Rightarrow> 'h os_state \<Rightarrow> 'h os_state" where
  "diag_record action s =
     (if \<not> diag_enabled s then s
      else s\<lparr>diagnosticData := diagnosticData s @ [(action, now s)]\<rparr>)"

definition getData :: "'h os_state \<Rightarrow> (string \<times> int) list" where
  "getData s = diagnosticData s"

subsection \<open>\<^verbatim>\<open>OutputService\<close>\<close>

definition output_add :: "oline \<Rightarrow> 'h os_state \<Rightarrow> 'h os_state" where
  "output_add line s =
     (if \<not> out_enabled s then s
      else (let s1 = diag_record ''OutputService_add'' s in s1\<lparr>buffer := buffer s1 @ [line]\<rparr>))"

text \<open>\<^verbatim>\<open>flush\<close> hands the lines of the four known types to the presenter.\<close>

definition output_flush :: "'h os_state \<Rightarrow> 'h os_state" where
  "output_flush s =
     (if \<not> out_enabled s then s
      else (let s1 = s\<lparr>screen := screen s @
                        filter (\<lambda>l. otype l \<in> set [''line'', ''error'', ''savior'', ''html'']) (buffer s)\<rparr>;
                s2 = diag_record ''OutputService_flush'' s1
            in s2\<lparr>buffer := []\<rparr>))"

definition output_clear :: "'h os_state \<Rightarrow> 'h os_state" where
  "output_clear s =
     (if \<not> out_enabled s then s
      else (diag_record ''OutputService_clear'' s)\<lparr>buffer := []\<rparr>)"

subsection \<open>\<^verbatim>\<open>CommandService\<close>\<close>

text \<open>
  \<^verbatim>\<open>Array.from(registeredCommands).map(x => Array.from(x)).flat().includes(name)\<close>.
\<close>

definition registered_names :: "'h os_state \<Rightarrow> string list" where
  "registered_names s = concat (map member_names (registeredCommands s))"

definition defineCommand :: "string \<Rightarrow> body \<Rightarrow> 'h \<Rightarrow> 'h os_state \<Rightarrow> 'h os_state" where
  "defineCommand name b fn s =
     (if \<not> cmd_enabled s then s
      else (let s1 = s\<lparr>commands := obj_set (commands s) name (b, fn)\<rparr>;
                s2 = diag_record (''CommandService_define '' @ name) s1
            in (case balias b of
                  None \<Rightarrow> s2
                | Some a \<Rightarrow>
                    if a = [] then s2
                    else s2\<lparr>commands :=
                           obj_set (commands s2) a (b\<lparr>balias := None, baliasOf := Some name\<rparr>, fn)\<rparr>)))"

definition getCommand :: "string \<Rightarrow> 'h os_state \<Rightarrow> 'h entry option \<times> 'h os_state" where
  "getCommand name s =
     (if \<not> cmd_enabled s then (None, s)
      else if name \<notin> set (registered_names s) then (None, s)
      else (obj_get (commands s) name, diag_record (''CommandService_get '' @ name) s))"

text \<open>\<^verbatim>\<open>if (entry.body.options.alias) names.push(alias)\<close>: an empty alias is falsy.\<close>

definition alias_names :: "body \<Rightarrow> string list" where
  "alias_names b = (case balias b of None \<Rightarrow> [] | Some a \<Rightarrow> if a = [] then [] else [a])"

definition unregisterCommand :: "string \<Rightarrow> 'h os_state \<Rightarrow> exn + 'h os_state" where
  "unregisterCommand name s =
     (if \<not> cmd_enabled s then Inr s
      else if name \<notin> set (registered_names s) then Inr s
      else (case obj_get (commands s) name of
              None \<Rightarrow> Inl (JSError (''Cannot unregister unknown command: '' @ [dquote] @ name @ [dquote]))
            | Some (b, fn) \<Rightarrow>
                (let commandNames = name # alias_names b;
                     s1 = diag_record (''CommandService_unregister '' @ name) s
                 in Inr (s1\<lparr>registeredCommands :=
                            map (\<lambda>m. case m of
                                        MSet ns \<Rightarrow> MSet (filter (\<lambda>n. n \<notin> set commandNames) ns)
                                      | MStr x \<Rightarrow> MStr x)
                                (registeredCommands s1)\<rparr>))))"

text \<open>
  \<^verbatim>\<open>registerCommand\<close>: the guard asks whether the string \<open>name\<close> is itself a member of
  \<^verbatim>\<open>registeredCommands\<close>; the new \<^verbatim>\<open>Set\<close> \<open>commandNames\<close> holds \<open>name\<close> and, once, the alias.
\<close>

definition registerCommand :: "string \<Rightarrow> 'h os_state \<Rightarrow> exn + 'h os_state" where
  "registerCommand name s =
     (if \<not> cmd_enabled s then Inr s
      else if MStr name \<in> set (registeredCommands s) then Inr s
      else (case obj_get (commands s) name of
              None \<Rightarrow> Inl (JSError (''Cannot register unknown command: '' @ [dquote] @ name @ [dquote]))
            | Some (b, fn) \<Rightarrow>
                (let commandNames = name # filter (\<lambda>a. a \<noteq> name) (alias_names b);
                     s1 = diag_record (''CommandService_register '' @ name) s
                 in Inr (s1\<lparr>registeredCommands := registeredCommands s1 @ [MSet commandNames]\<rparr>))))"

text \<open>\<^verbatim>\<open>bulkRegister\<close>: the loop stops at the first name that throws.\<close>

fun bulk_loop :: "string list \<Rightarrow> 'h os_state \<Rightarrow> exn + 'h os_state" where
  "bulk_loop [] s = Inr s"
| "bulk_loop (name # names) s =
     (case registerCommand name s of Inl e \<Rightarrow> Inl e | Inr s1 \<Rightarrow> bulk_loop names s1)"

definition bulkRegister :: "string list \<Rightarrow> 'h os_state \<Rightarrow> exn + 'h os_state" where
  "bulkRegister names s = (if \<not> cmd_enabled s then Inr s else bulk_loop names s)"

subsection \<open>\<^verbatim>\<open>CommandService.verify\<close>\<close>

definition js_typeof :: "jsval option \<Rightarrow> string" where
  "js_typeof v =
     (case v of
        None \<Rightarrow> ''undefined''
      | Some (VStr _) \<Rightarrow> ''string''
      | Some (VBool _) \<Rightarrow> ''boolean''
      | Some (VNum _) \<Rightarrow> ''number'')"

definition truthy :: "jsval option \<Rightarrow> bool" where
  "truthy v =
     (case v of
        None \<Rightarrow> False
      | Some (VStr s) \<Rightarrow> s \<noteq> []
      | Some (VBool b) \<Rightarrow> b
      | Some (VNum n) \<Rightarrow> n \<noteq> NaN \<and> n \<noteq> Fin 0)"

text \<open>
  \<^verbatim>\<open>/-?\d+/.test(v)\<close>: the value is turned into a string, which must hold a digit. The
  string of a boolean or of \<^verbatim>\<open>undefined\<close> has none; the string of a number has one
  unless the number is \<^verbatim>\<open>NaN\<close> or infinite.
\<close>

definition digit_test :: "jsval option \<Rightarrow> bool" where
  "digit_test v =
     (case v of
        None \<Rightarrow> False
      | Some (VStr s) \<Rightarrow> list_ex is_digit s
      | Some (VBool _) \<Rightarrow> False
      | Some (VNum n) \<Rightarrow> (case n of Fin _ \<Rightarrow> True | _ \<Rightarrow> False))"

text \<open>
  \<^verbatim>\<open>Number(v)\<close>. The conversion of a string is the built-in \<^verbatim>\<open>Number\<close>, a parameter
  \<open>num\<close> of the model.
\<close>

definition to_number :: "(string \<Rightarrow> jsnum) \<Rightarrow> jsval option \<Rightarrow> jsnum" where
  "to_number num v =
     (case v of
        None \<Rightarrow> NaN
      | Some (VStr s) \<Rightarrow> num s
      | Some (VBool b) \<Rightarrow> Fin (if b then 1 else 0)
      | Some (VNum n) \<Rightarrow> n)"

text \<open>What \<^verbatim>\<open>${x}\<close> prints for a string that may be \<^verbatim>\<open>undefined\<close>.\<close>

definition js_str :: "string option \<Rightarrow> string" where
  "js_str x = (case x of None \<Rightarrow> ''undefined'' | Some s \<Rightarrow> s)"

text \<open>
  The order of \<^verbatim>\<open>Object.keys\<close> and \<^verbatim>\<open>Object.entries\<close>: the keys that are array indices
  first, in ascending order, then the other keys in insertion order.
\<close>

definition dec_value :: "string \<Rightarrow> nat" where
  "dec_value s = foldl (\<lambda>a c. 10 * a + (of_char c - 48)) 0 s"

definition is_index :: "string \<Rightarrow> bool" where
  "is_index k =
     (k \<noteq> [] \<and> list_all is_digit k \<and> (length k = 1 \<or> hd k \<noteq> CHR ''0'') \<and> dec_value k < 4294967295)"

definition js_entries :: "'v obj \<Rightarrow> (string \<times> 'v) list" where
  "js_entries m =
     sort_key (\<lambda>e. dec_value (fst e)) (filter (\<lambda>e. is_index (fst e)) m) @
     filter (\<lambda>e. \<not> is_index (fst e)) m"

definition js_keys :: "'v obj \<Rightarrow> string list" where
  "js_keys m = map fst (js_entries m)"

text \<open>The result of \<open>verify\<close>: \<^verbatim>\<open>undefined\<close>, \<^verbatim>\<open>{ valid: false, error }\<close> or
  \<^verbatim>\<open>{ valid: true, error: null, flags }\<close>; or an exception of \<open>unregisterCommand\<close>.\<close>

datatype vresult = VDisabled | VInvalid string | VValid | VThrew exn

text \<open>The loop over the positional parameters, from position \<open>positionalIndex\<close>.\<close>

fun verify_positional :: "param list \<Rightarrow> nat \<Rightarrow> string list \<Rightarrow> string option" where
  "verify_positional [] positionalIndex args = None"
| "verify_positional (p # ps) positionalIndex args =
     (if prequired p \<and> positionalIndex \<ge> length args then
        Some (''Missing required argument: '' @ [dquote] @ pname p @ [dquote])
      else
        (case poptions p of
           Some opts \<Rightarrow>
             if \<not> (positionalIndex < length args \<and> args ! positionalIndex \<in> set opts) then
               Some (''Invalid value for argument '' @ [dquote] @ pname p @ [dquote] @
                     '': expected one of '' @ [dquote] @ join ([dquote] @ '', '' @ [dquote]) opts @ [dquote] @
                     '', got '' @ [dquote] @
                     (if positionalIndex < length args then args ! positionalIndex else ''undefined'') @
                     [dquote])
             else verify_positional ps (positionalIndex + 1) args
         | None \<Rightarrow> verify_positional ps (positionalIndex + 1) args))"

text \<open>
  The loop over the flag parameters: \<^verbatim>\<open>flags[param.short]\<close> with an absent \<^verbatim>\<open>short\<close>
  reads the key \<^verbatim>\<open>"undefined"\<close>.
\<close>

fun verify_required_flags :: "param list \<Rightarrow> jsval obj \<Rightarrow> string option" where
  "verify_required_flags [] flags = None"
| "verify_required_flags (p # ps) flags =
     (if prequired p \<and> obj_get flags (pname p) = None \<and> obj_get flags (js_str (pshort p)) = None then
        Some (''Missing required flag: '' @ [dquote] @ ''--'' @ pname p @ [dquote])
      else verify_required_flags ps flags)"

text \<open>
  The loop over the keys of \<open>flags\<close>. It writes the coerced number back into \<open>flags\<close>, the
  object that the caller passed: the updated object is part of the result.
\<close>

fun verify_flags ::
  "(string \<Rightarrow> jsnum) \<Rightarrow> string list \<Rightarrow> param list \<Rightarrow> string \<Rightarrow> jsval obj \<Rightarrow> 'h os_state \<Rightarrow>
   vresult \<times> jsval obj \<times> 'h os_state" where
  "verify_flags num [] flagSchema name flags s = (VValid, flags, s)"
| "verify_flags num (flagName # ks) flagSchema name flags s =
     (case find (\<lambda>p. pname p = flagName \<or> pshort p = Some flagName) flagSchema of
        None \<Rightarrow> verify_flags num ks flagSchema name flags s
      | Some flagDef \<Rightarrow>
          (case pdatatype flagDef of
             None \<Rightarrow>
               (case unregisterCommand name s of
                  Inl e \<Rightarrow> (VThrew e, flags, s)
                | Inr s1 \<Rightarrow>
                    (VInvalid (''Flag definition for '' @ [dquote] @ ''--'' @ pname flagDef @ [dquote] @
                               '' is missing datatype (string, num, bool)''), flags, s1))
           | Some flagType \<Rightarrow>
               (let coerced = digit_test (obj_get flags flagName);
                    actualType = (if coerced then ''number'' else js_typeof (obj_get flags flagName));
                    flags1 = (if coerced
                              then obj_set flags flagName (VNum (to_number num (obj_get flags flagName)))
                              else flags)
                in if flagType \<noteq> actualType then
                     (VInvalid (''Invalid value for flag '' @ [dquote] @ ''--'' @ pname flagDef @ [dquote] @
                                '': expected '' @ flagType @ '', got '' @ actualType), flags1, s)
                   else if truthy (pdefault flagDef) \<and> js_typeof (pdefault flagDef) \<noteq> flagType then
                     (case unregisterCommand name s of
                        Inl e \<Rightarrow> (VThrew e, flags1, s)
                      | Inr s1 \<Rightarrow>
                          (VInvalid (''Invalid default value for flag '' @ [dquote] @ ''--'' @
                                     pname flagDef @ [dquote]), flags1, s1))
                   else verify_flags num ks flagSchema name flags1 s)))"

definition positionalSchema :: "param list \<Rightarrow> param list" where
  "positionalSchema sch = filter (\<lambda>p. ptype p = ''positional'') sch"

definition flagSchema_of :: "param list \<Rightarrow> param list" where
  "flagSchema_of sch = filter (\<lambda>p. ptype p = ''flag'' \<or> ptype p = ''option'') sch"

definition verify ::
  "(string \<Rightarrow> jsnum) \<Rightarrow> string option \<Rightarrow> string list \<Rightarrow> jsval obj \<Rightarrow> 'h os_state \<Rightarrow>
   vresult \<times> jsval obj \<times> 'h os_state" where
  "verify num name args flags s =
     (if \<not> cmd_enabled s then (VDisabled, flags, s)
      else
        (let entry = (case name of None \<Rightarrow> None | Some n \<Rightarrow> obj_get (commands s) n);
             s1 = diag_record (''CommandService_verify '' @ js_str name) s
         in (case entry of
               None \<Rightarrow> (VInvalid (''Unknown command: '' @ [dquote] @ js_str name @ [dquote]), flags, s1)
             | Some (b, fn) \<Rightarrow>
                 (case verify_positional (positionalSchema (bschema b)) 0 args of
                    Some err \<Rightarrow> (VInvalid err, flags, s1)
                  | None \<Rightarrow>
                      (case verify_required_flags (flagSchema_of (bschema b)) flags of
                         Some err \<Rightarrow> (VInvalid err, flags, s1)
                       | None \<Rightarrow>
                           verify_flags num (js_keys flags) (flagSchema_of (bschema b))
                             (js_str name) flags s1)))))"

section \<open>The \<^verbatim>\<open>service\<close> command\<close>

text \<open>The argument \<^verbatim>\<open>{ args, flags, pipe }\<close> of a handler.\<close>

record params =
  p_args :: "string list"
  p_flags :: "jsval obj"
  p_pipe :: hresult

subsection \<open>\<^verbatim>\<open>service logs\<close>\<close>

text \<open>
  The first loop of the \<^verbatim>\<open>logs\<close> branch, over the remaining entries of \<open>uncompressed\<close>:
  \<open>lastEntry\<close> is the last element of \<open>compressed\<close>, \<^verbatim>\<open>undefined\<close> when there is none.
\<close>

fun compress_loop :: "string list \<Rightarrow> string list \<Rightarrow> nat \<Rightarrow> string list" where
  "compress_loop [] compressed increment = compressed"
| "compress_loop (currentEntry # rest) compressed increment =
     (if compressed = [] then compress_loop rest (compressed @ [currentEntry]) increment
      else if currentEntry = last compressed then compress_loop rest compressed (increment + 1)
      else if increment > 0 then
        compress_loop rest
          (butlast compressed @ [last compressed @ '' (x'' @ show_nat (increment + 1) @ '')''] @ [currentEntry])
          0
      else compress_loop rest (compressed @ [currentEntry]) increment)"

text \<open>
  \<^verbatim>\<open>line.match(/^\[([^\]]*)\]/)\<close>: the text between a leading \<^verbatim>\<open>[\<close> and the first
  \<^verbatim>\<open>]\<close>, if the line has both.
\<close>

definition match_stamp :: "string \<Rightarrow> string option" where
  "match_stamp line =
     (case line of
        [] \<Rightarrow> None
      | c # rest \<Rightarrow>
          if c = CHR ''['' \<and> CHR '']'' \<in> set rest then Some (takeWhile (\<lambda>x. x \<noteq> CHR '']'') rest)
          else None)"

text \<open>The second loop: a stamp equal to \<open>lastStamp\<close> is replaced by as many spaces.\<close>

fun blank_loop :: "string list \<Rightarrow> string option \<Rightarrow> string list" where
  "blank_loop [] lastStamp = []"
| "blank_loop (line # rest) lastStamp =
     (case match_stamp line of
        None \<Rightarrow> line # blank_loop rest lastStamp
      | Some stamp \<Rightarrow>
          if Some stamp = lastStamp then
            (''['' @ replicate (length stamp) (CHR '' '') @ drop (length stamp + 1) line) #
            blank_loop rest lastStamp
          else line # blank_loop rest (Some stamp))"

text \<open>
  The final \<^verbatim>\<open>map\<close>, with \<^verbatim>\<open>/^\[([^\]]*)\] (.*)$/s\<close>: the stamp goes to \<open>loc\<close>, what follows
  \<^verbatim>\<open>"] "\<close> to \<open>content\<close>.
\<close>

definition split_line :: "string \<Rightarrow> oline" where
  "split_line x =
     (case match_stamp x of
        None \<Rightarrow> \<lparr>otype = ''line'', content = x, loc = Some []\<rparr>
      | Some stamp \<Rightarrow>
          (case drop (length stamp + 2) x of
             [] \<Rightarrow> \<lparr>otype = ''line'', content = x, loc = Some []\<rparr>
           | c # tail \<Rightarrow>
               if c = CHR '' '' then \<lparr>otype = ''line'', content = tail, loc = Some (''['' @ stamp @ '']'')\<rparr>
               else \<lparr>otype = ''line'', content = x, loc = Some []\<rparr>))"

text \<open>
  The \<^verbatim>\<open>logs\<close> branch. \<open>ts\<close> is \<^verbatim>\<open>os.timestamp('d/mn/Y h:m:s.l z', _)\<close>, the presenter's
  formatting of a time, a parameter of the model.
\<close>

definition format_entry :: "(int \<Rightarrow> string) \<Rightarrow> string \<times> int \<Rightarrow> string" where
  "format_entry ts e = ''['' @ ts (snd e) @ ''] '' @ fst e"

definition service_logs :: "(int \<Rightarrow> string) \<Rightarrow> params \<Rightarrow> 'h os_state \<Rightarrow> outcome \<times> 'h os_state" where
  "service_logs ts ps s =
     (let s1 = (if truthy (obj_get (p_flags ps) ''clear'') then s\<lparr>diagnosticData := []\<rparr> else s);
          uncompressed = map (format_entry ts) (getData s1);
          compressed = blank_loop (compress_loop uncompressed [] 0) None
      in (Ret (RArr (map split_line compressed)), s1))"

subsection \<open>\<^verbatim>\<open>service list\<close>, \<^verbatim>\<open>enable\<close> and \<^verbatim>\<open>disable\<close>\<close>

datatype svc = SOutput | SCommandExec | SCommand | SDiagnostic | SSavior

definition svc_name :: "svc \<Rightarrow> string" where
  "svc_name v =
     (case v of
        SOutput \<Rightarrow> ''OutputService''
      | SCommandExec \<Rightarrow> ''CommandExecService''
      | SCommand \<Rightarrow> ''CommandService''
      | SDiagnostic \<Rightarrow> ''DiagnosticService''
      | SSavior \<Rightarrow> ''SaviorService'')"

definition svc_enabled :: "svc \<Rightarrow> 'h os_state \<Rightarrow> bool" where
  "svc_enabled v s =
     (case v of
        SOutput \<Rightarrow> out_enabled s
      | SCommandExec \<Rightarrow> exec_enabled s
      | SCommand \<Rightarrow> cmd_enabled s
      | SDiagnostic \<Rightarrow> diag_enabled s
      | SSavior \<Rightarrow> savior_enabled s)"

definition svc_enable :: "svc \<Rightarrow> 'h os_state \<Rightarrow> 'h os_state" where
  "svc_enable v s =
     (case v of
        SOutput \<Rightarrow> diag_record ''OutputService_enable'' (s\<lparr>out_enabled := True\<rparr>)
      | SCommandExec \<Rightarrow> diag_record ''CommandExecService_enable'' (s\<lparr>exec_enabled := True\<rparr>)
      | SCommand \<Rightarrow> diag_record ''CommandService_enable'' (s\<lparr>cmd_enabled := True\<rparr>)
      | SDiagnostic \<Rightarrow> s\<lparr>diag_enabled := True\<rparr>
      | SSavior \<Rightarrow>
          if savior_enabled s then s
          else diag_record ''SaviorService_enable'' (s\<lparr>savior_enabled := True\<rparr>))"

definition svc_disable :: "svc \<Rightarrow> 'h os_state \<Rightarrow> 'h os_state" where
  "svc_disable v s =
     (case v of
        SOutput \<Rightarrow> diag_record ''OutputService_disable'' (s\<lparr>out_enabled := False\<rparr>)
      | SCommandExec \<Rightarrow> diag_record ''CommandExecService_disable'' (s\<lparr>exec_enabled := False\<rparr>)
      | SCommand \<Rightarrow> diag_record ''CommandService_disable'' (s\<lparr>cmd_enabled := False\<rparr>)
      | SDiagnostic \<Rightarrow> s\<lparr>diag_enabled := False\<rparr>
      | SSavior \<Rightarrow>
          if \<not> savior_enabled s then s
          else diag_record ''SaviorService_disable'' (s\<lparr>savior_enabled := False\<rparr>))"

definition service_list :: "'h os_state \<Rightarrow> oline list" where
  "service_list s =
     map (\<lambda>v. \<lparr>otype = ''html'',
                content = padEnd 18 (svc_name v) @ '' : '' @
                  (if svc_enabled v s then ''<span class='' @ [squote] @ ''enabled'' @ [squote] @ ''>ENABLED</span>''
                   else ''<span class='' @ [squote] @ ''disabled'' @ [squote] @ ''>DISABLED</span>''),
                loc = Some []\<rparr>)
       [SOutput, SCommandExec, SCommand, SDiagnostic, SSavior]"

text \<open>
  \<^verbatim>\<open>serviceMap[key]\<close>: one of the five services, nothing, or a property that the object
  literal inherits. Of the inherited names only \<^verbatim>\<open>constructor\<close> and \<^verbatim>\<open>__proto__\<close> are
  in lower case; their values have no \<^verbatim>\<open>enable\<close> or \<^verbatim>\<open>disable\<close> method.
\<close>

datatype svc_lookup = Service svc | Inherited | Missing

definition serviceMap :: "string \<Rightarrow> svc_lookup" where
  "serviceMap key =
     (if key = ''output'' then Service SOutput
      else if key = ''commandexec'' then Service SCommandExec
      else if key = ''command'' then Service SCommand
      else if key = ''diagnostic'' then Service SDiagnostic
      else if key = ''savior'' then Service SSavior
      else if key = ''constructor'' \<or> key = ''__proto__'' then Inherited
      else Missing)"

definition criticalServices :: "string list" where
  "criticalServices = [''commandexec'', ''savior'', ''command'']"

definition service_toggle :: "string \<Rightarrow> params \<Rightarrow> 'h os_state \<Rightarrow> outcome \<times> 'h os_state" where
  "service_toggle action ps s =
     (case drop 1 (p_args ps) of
        [] \<Rightarrow>
          (Ret (RObj \<lparr>otype = ''error'',
                      content = ''Service name is required for enable/disable action'', loc = None\<rparr>), s)
      | serviceName # _ \<Rightarrow>
          if serviceName = [] then
            (Ret (RObj \<lparr>otype = ''error'',
                        content = ''Service name is required for enable/disable action'', loc = None\<rparr>), s)
          else
            (case serviceMap (toLowerCase serviceName) of
               Missing \<Rightarrow>
                 (Ret (RObj \<lparr>otype = ''error'',
                             content = ''Unknown service: '' @ [dquote] @ serviceName @ [dquote] @
                               ''. Valid services are: output, commandexec, command, diagnostic, savior'',
                             loc = None\<rparr>), s)
             | Inherited \<Rightarrow> (Throw (JSError ''TypeError''), s)
             | Service v \<Rightarrow>
                 if action = ''enable'' then
                   (Ret (RObj \<lparr>otype = ''line'', content = ''Enabled '' @ serviceName @ '' service'',
                               loc = Some []\<rparr>), svc_enable v s)
                 else if toLowerCase serviceName \<in> set criticalServices
                         \<and> \<not> truthy (obj_get (p_flags ps) ''confirm'') then
                   (Ret (RObj \<lparr>otype = ''error'',
                               content = ''The '' @ [dquote] @ serviceName @ [dquote] @
                                 '' service is critical for the operation of the OS. '' @
                                 ''Use --confirm flag to confirm that you want to disable it.'',
                               loc = None\<rparr>), s)
                 else
                   (Ret (RObj \<lparr>otype = ''line'', content = ''Disabled '' @ serviceName @ '' service'',
                               loc = Some []\<rparr>), svc_disable v s)))"

definition service_handler :: "(int \<Rightarrow> string) \<Rightarrow> params \<Rightarrow> 'h os_state \<Rightarrow> outcome \<times> 'h os_state" where
  "service_handler ts ps s =
     (case p_args ps of
        [] \<Rightarrow> (Ret RUndefined, s)
      | action # _ \<Rightarrow>
          if action = ''logs'' then service_logs ts ps s
          else if action = ''list'' then (Ret (RArr (service_list s)), s)
          else if action = ''enable'' \<or> action = ''disable'' then service_toggle action ps s
          else (Ret RUndefined, s))"

section \<open>\<^verbatim>\<open>OS.runSingle\<close> and \<^verbatim>\<open>OS.runChain\<close>\<close>

text \<open>
  The handlers are values of a type \<open>'h\<close>; \<open>call\<close> runs one of them on its argument and on
  the state, and returns what it returns or throws. The \<^verbatim>\<open>AbortSignal\<close> is the boolean
  \<open>signal_aborted\<close>: the handlers of \<^verbatim>\<open>lib.js\<close> are synchronous and none calls
  \<^verbatim>\<open>interrupt\<close>, so the signal does not change while \<^verbatim>\<open>runChain\<close> runs.
\<close>

text \<open>The loop that maps the short names of the supplied flags to the full names.\<close>

fun normalize_flags :: "(string \<times> jsval) list \<Rightarrow> param list \<Rightarrow> jsval obj \<Rightarrow> jsval obj" where
  "normalize_flags [] flagSchema normalizedFlags = normalizedFlags"
| "normalize_flags ((key, v) # es) flagSchema normalizedFlags =
     normalize_flags es flagSchema
       (obj_set normalizedFlags
          (case find (\<lambda>p. pshort p = Some key) flagSchema of Some flagDef \<Rightarrow> pname flagDef | None \<Rightarrow> key)
          v)"

text \<open>
  \<open>runSingle\<close> passes \<^verbatim>\<open>fragment.flags\<close> itself to \<open>verify\<close>, which writes into it: the
  fragment as it is afterwards is part of the result.
\<close>

definition runSingle ::
  "(string \<Rightarrow> jsnum) \<Rightarrow> ('h \<Rightarrow> params \<Rightarrow> 'h os_state \<Rightarrow> outcome \<times> 'h os_state) \<Rightarrow>
   fragment \<Rightarrow> bool \<Rightarrow> hresult \<Rightarrow> 'h os_state \<Rightarrow> outcome \<times> fragment \<times> 'h os_state" where
  "runSingle num call fragment signal_aborted pipe s =
     (case verify num (frag_name fragment) (frag_args fragment) (frag_flags fragment) s of
        (verification, flags1, s1) \<Rightarrow>
          (let fragment1 = fragment\<lparr>frag_flags := flags1\<rparr>
           in case verification of
                VThrew e \<Rightarrow> (Throw e, fragment1, s1)
              | VDisabled \<Rightarrow> (Throw (OSError ''CommandService is disabled.''), fragment1, s1)
              | _ \<Rightarrow>
                  if signal_aborted then
                    (Throw AbortError, fragment1, diag_record ''OS_runSingle_aborted'' s1)
                  else if (case frag_name fragment1 of
                             None \<Rightarrow> True
                           | Some n \<Rightarrow> n \<notin> set (registered_names s1)) then
                    (Throw (OSError (''Unknown command: '' @ [dquote] @ js_str (frag_name fragment1) @ [dquote])),
                     fragment1, s1)
                  else
                    (case verification of
                       VInvalid err \<Rightarrow> (Throw (OSError err), fragment1, s1)
                     | _ \<Rightarrow>
                         (case obj_get (commands s1) (js_str (frag_name fragment1)) of
                            None \<Rightarrow> (Throw (JSError ''TypeError''), fragment1, s1)
                          | Some (b, fn) \<Rightarrow>
                              (let normalizedFlags =
                                     normalize_flags (js_entries (frag_flags fragment1))
                                       (flagSchema_of (bschema b)) [];
                                   s2 = diag_record (''CommandExecService_run '' @ js_str (frag_name fragment1)) s1
                               in case call fn \<lparr>p_args = frag_args fragment1, p_flags = normalizedFlags,
                                                p_pipe = pipe\<rparr> s2 of
                                    (Throw e, s3) \<Rightarrow> (Throw e, fragment1, s3)
                                  | (Ret result, s3) \<Rightarrow>
                                      (case result of
                                         RObj l \<Rightarrow>
                                           if otype l = ''error'' then (Throw (OSError (content l)), fragment1, s3)
                                           else (Ret result, fragment1, s3)
                                       | RUndefined \<Rightarrow> (Ret RNull, fragment1, s3)
                                       | _ \<Rightarrow> (Ret result, fragment1, s3)))))))"

text \<open>
  The three branches that turn the result of a fragment into the next pipe:
  \<^verbatim>\<open>result?.type === "line"\<close>, \<^verbatim>\<open>Array.isArray(result)\<close>, and \<^verbatim>\<open>result ?? null\<close>.
\<close>

definition to_pipe :: "hresult \<Rightarrow> hresult" where
  "to_pipe result =
     (if (case result of RObj l \<Rightarrow> otype l = ''line'' | _ \<Rightarrow> False) then
        (case result of RObj l \<Rightarrow> RArr [l] | _ \<Rightarrow> result)
      else if (case result of RArr _ \<Rightarrow> True | _ \<Rightarrow> False) then result
      else (case result of RUndefined \<Rightarrow> RNull | RNull \<Rightarrow> RNull | _ \<Rightarrow> result))"

text \<open>
  The loop of \<open>runChain\<close> over the remaining parts; \<open>done\<close> are the parts already run, as
  they are after their run.
\<close>

fun rc_loop ::
  "(string \<Rightarrow> jsnum) \<Rightarrow> ('h \<Rightarrow> params \<Rightarrow> 'h os_state \<Rightarrow> outcome \<times> 'h os_state) \<Rightarrow>
   chain \<Rightarrow> chain \<Rightarrow> bool \<Rightarrow> hresult \<Rightarrow> 'h os_state \<Rightarrow> outcome \<times> chain \<times> 'h os_state" where
  "rc_loop num call [] done signal_aborted pipe s = (Ret pipe, done, s)"
| "rc_loop num call (part # rest) done signal_aborted pipe s =
     (if signal_aborted then
        (Throw AbortError, done @ part # rest, diag_record ''OS_runChain_aborted'' s)
      else
        (case runSingle num call part signal_aborted pipe s of
           (Throw e, part1, s1) \<Rightarrow> (Throw e, done @ part1 # rest, s1)
         | (Ret result, part1, s1) \<Rightarrow>
             rc_loop num call rest (done @ [part1]) signal_aborted (to_pipe result) s1))"

definition runChain ::
  "(string \<Rightarrow> jsnum) \<Rightarrow> ('h \<Rightarrow> params \<Rightarrow> 'h os_state \<Rightarrow> outcome \<times> 'h os_state) \<Rightarrow>
   chain \<Rightarrow> bool \<Rightarrow> 'h os_state \<Rightarrow> outcome \<times> chain \<times> 'h os_state" where
  "runChain num call c signal_aborted s =
     (case rc_loop num call c [] signal_aborted RNull s of
        (Throw e, c1, s1) \<Rightarrow> (Throw e, c1, s1)
      | (Ret pipe, c1, s1) \<Rightarrow>
          (Ret pipe, c1,
           (case pipe of RArr ls \<Rightarrow> foldl (\<lambda>st line. output_add line st) s1 ls | _ \<Rightarrow> s1)))"

section \<open>The built-in commands\<close>

datatype builtin =
  HService | HClear | HPrint | HObuffer | HCommandline | HLinecount | HHelp | HFindtext

text \<open>
  The handlers of \<^verbatim>\<open>defineCommands\<close>. \<^verbatim>\<open>service\<close> and \<^verbatim>\<open>obuffer\<close> are modelled; the others
  read or write the page or use regular expressions, and are the parameter \<open>ext\<close>.
\<close>

definition builtin_call ::
  "(int \<Rightarrow> string) \<Rightarrow> (builtin \<Rightarrow> params \<Rightarrow> builtin os_state \<Rightarrow> outcome \<times> builtin os_state) \<Rightarrow>
   builtin \<Rightarrow> params \<Rightarrow> builtin os_state \<Rightarrow> outcome \<times> builtin os_state" where
  "builtin_call ts ext h ps s =
     (case h of
        HService \<Rightarrow> service_handler ts ps s
      | HObuffer \<Rightarrow> (Ret RUndefined, output_flush s)
      | _ \<Rightarrow> ext h ps s)"

definition positional :: "string \<Rightarrow> bool \<Rightarrow> param" where
  "positional n r =
     \<lparr>ptype = ''positional'', pname = n, pshort = None, prequired = r, pdatatype = None,
      poptions = None, pipeableFrom = None, pdefault = None\<rparr>"

definition bool_flag :: "string \<Rightarrow> string option \<Rightarrow> param" where
  "bool_flag n sh =
     \<lparr>ptype = ''flag'', pname = n, pshort = sh, prequired = False, pdatatype = Some ''boolean'',
      poptions = None, pipeableFrom = None, pdefault = None\<rparr>"

definition plain_body :: "param list \<Rightarrow> body" where
  "plain_body sch = \<lparr>balias = None, bhidden = False, baliasOf = None, bschema = sch\<rparr>"

definition service_body :: body where
  "service_body =
     plain_body
       [(positional ''action'' True)\<lparr>poptions := Some [''list'', ''enable'', ''disable'', ''logs'']\<rparr>,
        positional ''service'' False,
        bool_flag ''confirm'' None,
        bool_flag ''clear'' (Some ''c'')]"

definition defineCommands :: "builtin os_state \<Rightarrow> exn + builtin os_state" where
  "defineCommands s =
     bulkRegister
       [''print'', ''obuffer'', ''commandline'', ''linecount'', ''help'', ''clear'', ''service'', ''findtext'']
       (defineCommand ''findtext''
          ((plain_body
             [(positional ''text'' True)\<lparr>pipeableFrom := Some ''text''\<rparr>,
              bool_flag ''ignorecase'' (Some ''i''),
              bool_flag ''regex'' (Some ''r'')])\<lparr>balias := Some ''find''\<rparr>) HFindtext
       (defineCommand ''help''
          ((plain_body
             [bool_flag ''aliases'' (Some ''a''),
              positional ''command'' False,
              bool_flag ''verbose'' (Some ''v'')])\<lparr>balias := Some ''?''\<rparr>) HHelp
       (defineCommand ''linecount'' ((plain_body [])\<lparr>balias := Some ''lc''\<rparr>) HLinecount
       (defineCommand ''commandline'' ((plain_body [])\<lparr>bhidden := True\<rparr>) HCommandline
       (defineCommand ''obuffer'' ((plain_body [])\<lparr>bhidden := True\<rparr>) HObuffer
       (defineCommand ''print''
          (plain_body
             [(positional ''text'' True)\<lparr>pipeableFrom := Some ''text''\<rparr>,
              (positional ''loc_text'' False)\<lparr>pshort := Some ''l'', pdatatype := Some ''string''\<rparr>]) HPrint
       (defineCommand ''clear'' ((plain_body [])\<lparr>balias := Some ''cls''\<rparr>) HClear
       (defineCommand ''service'' service_body HService s))))))))"

text \<open>
  \<^verbatim>\<open>validateCommand\<close>: every flag parameter without a proper datatype unregisters the
  command and prints an error.
\<close>

fun validate_params :: "string \<Rightarrow> param list \<Rightarrow> 'h os_state \<Rightarrow> exn + 'h os_state" where
  "validate_params name [] s = Inr s"
| "validate_params name (p # ps) s =
     (if ptype p = ''flag'' \<and>
         (case pdatatype p of None \<Rightarrow> True | Some d \<Rightarrow> d \<notin> set [''boolean'', ''string'', ''number'']) then
        (case unregisterCommand name s of
           Inl e \<Rightarrow> Inl e
         | Inr s1 \<Rightarrow>
             validate_params name ps
               (s1\<lparr>screen := screen s1 @
                  [\<lparr>otype = ''error'',
                    content = ''Invalid schema for command '' @ [dquote] @ name @ [dquote] @ '': Flag '' @
                      [dquote] @ pname p @ [dquote] @ '' has invalid or missing datatype (must be '' @
                      [dquote] @ ''boolean'' @ [dquote] @ '', '' @ [dquote] @ ''string'' @ [dquote] @
                      '', or '' @ [dquote] @ ''number'' @ [dquote] @ '')'',
                    loc = None\<rparr>]\<rparr>))
      else validate_params name ps s)"

definition validateCommand :: "string option \<Rightarrow> 'h os_state \<Rightarrow> exn + 'h os_state" where
  "validateCommand name s =
     (if \<not> cmd_enabled s then Inr s
      else (case (case name of None \<Rightarrow> None | Some n \<Rightarrow> obj_get (commands s) n) of
              None \<Rightarrow> Inl (JSError (''Cannot validate unknown command: '' @ [dquote] @ js_str name @ [dquote]))
            | Some (b, fn) \<Rightarrow>
                validate_params (js_str name) (bschema b)
                  (diag_record (''CommandService_validate '' @ js_str name) s)))"

text \<open>\<^verbatim>\<open>OS.validateCommands\<close>, over the members listed when it starts.\<close>

fun validate_loop :: "member list \<Rightarrow> 'h os_state \<Rightarrow> exn + 'h os_state" where
  "validate_loop [] s = Inr s"
| "validate_loop (m # ms) s =
     (case validateCommand (case member_names m of [] \<Rightarrow> None | n # _ \<Rightarrow> Some n) s of
        Inl e \<Rightarrow> Inl e
      | Inr s1 \<Rightarrow> validate_loop ms s1)"

definition validateCommands :: "'h os_state \<Rightarrow> exn + 'h os_state" where
  "validateCommands s =
     (if \<not> cmd_enabled s then Inl (JSError ''TypeError'') else validate_loop (registeredCommands s) s)"

text \<open>
  The state before the constructor of \<^verbatim>\<open>OS\<close> runs, at time \<open>t\<close>, and the constructor: the
  \<^verbatim>\<open>init\<close> of each service, \<open>defineCommands\<close> and \<open>validateCommands\<close>.
\<close>

definition blank_state :: "int \<Rightarrow> 'h os_state" where
  "blank_state t =
     \<lparr>now = t, diag_enabled = False, diagnosticData = [], out_enabled = False, buffer = [],
      screen = [], console = [], cmd_enabled = False, commands = [], registeredCommands = [],
      savior_enabled = False, exec_enabled = False, exec_os = False, queue = [], running = False,
      currentAbort = None, currentReject = None, next_promise = 0, aborted = [], frames = [],
      history = []\<rparr>"

definition os_constructor :: "int \<Rightarrow> exn + builtin os_state" where
  "os_constructor t =
     (let s1 = (blank_state t)\<lparr>diag_enabled := True\<rparr>;
          s2 = diag_record ''CommandService_init'' (s1\<lparr>cmd_enabled := True\<rparr>)
      in case defineCommands s2 of
           Inl e \<Rightarrow> Inl e
         | Inr s3 \<Rightarrow>
             (case validateCommands s3 of
                Inl e \<Rightarrow> Inl e
              | Inr s4 \<Rightarrow>
                  (let s5 = diag_record ''CommandExecService_init''
                              (s4\<lparr>queue := [], running := False, exec_os := True, exec_enabled := True\<rparr>);
                       s6 = diag_record ''OutputService_init'' (s5\<lparr>buffer := [], out_enabled := True\<rparr>);
                       s7 = diag_record ''SaviorService_init'' (s6\<lparr>savior_enabled := True\<rparr>)
                   in Inr s7)))"

section \<open>\<^verbatim>\<open>CommandExecService\<close>\<close>

text \<open>
  \<open>runNext\<close> up to its \<^verbatim>\<open>await\<close>: it takes the head of the queue, makes a controller
  and calls \<^verbatim>\<open>os.runChain\<close>; the call stays suspended as a frame. When the service is
  not initialised the \<^verbatim>\<open>async\<close> function only rejects its own promise, which nobody reads.
\<close>

definition runNext :: "'h os_state \<Rightarrow> 'h os_state" where
  "runNext s =
     (if \<not> exec_enabled s then s
      else if \<not> exec_os s then s
      else if running s then s
      else (case queue s of
              [] \<Rightarrow> s
            | (p, c) # rest \<Rightarrow>
                s\<lparr>running := True, queue := rest, currentAbort := Some p, currentReject := Some p,
                  frames := frames s @ [(p, c)], history := history s @ [Started p]\<rparr>))"

text \<open>
  \<open>enqueue\<close> returns \<^verbatim>\<open>undefined\<close> when the service is disabled, and otherwise a new
  promise, here its number.
\<close>

definition enqueue :: "chain \<Rightarrow> 'h os_state \<Rightarrow> exn + (nat option \<times> 'h os_state)" where
  "enqueue c s =
     (if \<not> exec_enabled s then Inr (None, s)
      else if \<not> exec_os s then Inl (JSError ''CommandExecService not initialized with OS instance'')
      else (let p = next_promise s;
                s1 = diag_record (''CommandExecService_enqueue '' @ simplify c) (s\<lparr>next_promise := p + 1\<rparr>);
                s2 = s1\<lparr>queue := queue s1 @ [(p, c)]\<rparr>
            in Inr (Some p, runNext s2)))"

definition interrupt :: "'h os_state \<Rightarrow> 'h os_state" where
  "interrupt s =
     (if \<not> exec_enabled s then s
      else if \<not> exec_os s then s
      else (let s1 = diag_record ''CommandExecService_interrupt'' (s\<lparr>queue := []\<rparr>)
            in (case currentAbort s1 of
                  None \<Rightarrow> s1
                | Some ctl \<Rightarrow> s1\<lparr>aborted := ctl # aborted s1\<rparr>)))"

definition resolve :: "nat \<Rightarrow> hresult \<Rightarrow> 'h os_state \<Rightarrow> 'h os_state" where
  "resolve p v s = s\<lparr>history := history s @ [Resolved p v]\<rparr>"

text \<open>
  The rest of \<open>runNext\<close> for the frame at position \<open>i\<close>, with promise \<open>p\<close> and chain \<open>c\<close>,
  once \<^verbatim>\<open>os.runChain\<close> has returned or thrown \<open>out\<close>: \<open>finish_frame\<close> is the pacing delay,
  the \<^verbatim>\<open>resolve\<close> of the \<^verbatim>\<open>try\<close> or \<^verbatim>\<open>catch\<close> block and the assignments of the
  \<^verbatim>\<open>finally\<close> block; \<open>settle\<close> adds the last statement, which continues the queue unless
  the frame's controller was aborted.
\<close>

definition finish_frame :: "nat \<Rightarrow> nat \<Rightarrow> chain \<Rightarrow> outcome \<Rightarrow> 'h os_state \<Rightarrow> 'h os_state" where
  "finish_frame i p c out s =
     (let s1 =
            (case out of
               Ret result \<Rightarrow> resolve p result s
             | Throw AbortError \<Rightarrow>
                 resolve p RNull
                   (output_flush
                      (output_add \<lparr>otype = ''error'', content = ''Command execution interrupted.'',
                                   loc = None\<rparr> s))
             | Throw (OSError message) \<Rightarrow>
                 resolve p RNull
                   (output_add \<lparr>otype = ''error'', content = message, loc = None\<rparr>
                      (diag_record (''CommandExecService_commandError '' @ simplify c) s))
             | Throw (JSError e) \<Rightarrow>
                 resolve p RNull
                   ((output_add \<lparr>otype = ''error'',
                                 content = ''An unexpected error occurred. Check console for details.'',
                                 loc = None\<rparr>
                       (diag_record (''CommandExecService_unexpectedError '' @ simplify c) s))
                    \<lparr>console := console s @ [JSError e]\<rparr>))
      in s1\<lparr>currentAbort := None, currentReject := None, running := False,
            frames := take i (frames s1) @ drop (Suc i) (frames s1)\<rparr>)"

definition settle :: "nat \<Rightarrow> outcome \<Rightarrow> 'h os_state \<Rightarrow> 'h os_state" where
  "settle i out s =
     (if i \<ge> length (frames s) then s
      else
        (case frames s ! i of
           (p, c) \<Rightarrow>
             (let s2 = finish_frame i p c out s
              in if p \<in> set (aborted s2) then s2 else runNext s2)))"

text \<open>
  The frame at position \<open>i\<close> run to its end: \<^verbatim>\<open>os.runChain\<close> on the frame's chain with the
  signal of the frame's controller, then the rest of \<open>runNext\<close>.
\<close>

definition run_frame ::
  "(string \<Rightarrow> jsnum) \<Rightarrow> ('h \<Rightarrow> params \<Rightarrow> 'h os_state \<Rightarrow> outcome \<times> 'h os_state) \<Rightarrow> nat \<Rightarrow>
   'h os_state \<Rightarrow> 'h os_state" where
  "run_frame num call i s =
     (if i \<ge> length (frames s) then s
      else
        (case frames s ! i of
           (p, c) \<Rightarrow>
             (case runChain num call c (p \<in> set (aborted s)) s of
                (out, c1, s1) \<Rightarrow> settle i out s1)))"

text \<open>
  What can happen to the queue, one step at a time: a chain is enqueued, the run of a
  frame ends with some outcome, \<open>interrupt\<close> is called, a service is enabled or disabled
  (by the \<^verbatim>\<open>service\<close> command or by the watchdog), the clock advances.
\<close>

datatype event =
  Enqueue chain | Settle nat outcome | Interrupt | Enable svc | Disable svc | Advance int

fun step :: "event \<Rightarrow> 'h os_state \<Rightarrow> 'h os_state" where
  "step (Enqueue c) s = (case enqueue c s of Inl e \<Rightarrow> s | Inr (p, s1) \<Rightarrow> s1)"
| "step (Settle i out) s = settle i out s"
| "step Interrupt s = interrupt s"
| "step (Enable v) s = svc_enable v s"
| "step (Disable v) s = svc_disable v s"
| "step (Advance t) s = s\<lparr>now := t\<rparr>"

definition run_events :: "event list \<Rightarrow> 'h os_state \<Rightarrow> 'h os_state" where
  "run_events evs s = fold step evs s"

section \<open>Notions used to state the properties\<close>


text \<open>
  The history of the queue read from left to right: which promise's chain is running
  after it, if the calls of \<^verbatim>\<open>os.runChain\<close> and the settlements alternate; \<open>None\<close> if a
  chain was started while another ran, or a promise settled whose chain was not running.
\<close>

fun track :: "nat option option \<Rightarrow> hist \<Rightarrow> nat option option" where
  "track (Some None) (Started p) = Some (Some p)"
| "track (Some (Some q)) (Resolved p v) = (if p = q then Some None else None)"
| "track (Some (Some q)) (Rejected p) = (if p = q then Some None else None)"
| "track st ev = None"

definition in_flight :: "hist list \<Rightarrow> nat option option" where
  "in_flight h = foldl track (Some None) h"

text \<open>The promises whose chains were started, in the order of their start.\<close>

definition starts :: "hist list \<Rightarrow> nat list" where
  "starts h = concat (map (\<lambda>ev. case ev of Started p \<Rightarrow> [p] | _ \<Rightarrow> []) h)"

text \<open>The promise of the frame that is suspended, if there is one.\<close>

definition frame_promise :: "'h os_state \<Rightarrow> nat option" where
  "frame_promise s = (case frames s of [] \<Rightarrow> None | (p, c) # _ \<Rightarrow> Some p)"

text \<open>
  The invariant of the queue: at most one frame, which is the chain that the history
  shows running and whose controller is \<^verbatim>\<open>currentAbort\<close>; the promises started so far
  and those still queued are in the order of their numbers, below the next number; no
  promise was rejected; the service is initialised.
\<close>

definition exec_inv :: "'h os_state \<Rightarrow> bool" where
  "exec_inv s =
     (length (frames s) \<le> 1 \<and> running s = (frames s \<noteq> [])
      \<and> in_flight (history s) = Some (frame_promise s)
      \<and> currentAbort s = frame_promise s
      \<and> sorted_wrt (<) (starts (history s) @ map fst (queue s))
      \<and> list_all (\<lambda>p. p < next_promise s) (starts (history s) @ map fst (queue s))
      \<and> list_all (\<lambda>ev. case ev of Rejected p \<Rightarrow> False | _ \<Rightarrow> True) (history s)
      \<and> exec_os s)"

text \<open>The value with which \<open>finish_frame\<close> resolves the promise of a frame.\<close>

definition resolved_value :: "outcome \<Rightarrow> hresult" where
  "resolved_value out = (case out of Ret r \<Rightarrow> r | Throw e \<Rightarrow> RNull)"

text \<open>The execution service right after its \<^verbatim>\<open>init\<close>: enabled, nothing queued or running.\<close>

definition exec_fresh :: "'h os_state \<Rightarrow> bool" where
  "exec_fresh s =
     (exec_enabled s \<and> exec_os s \<and> queue s = [] \<and> \<not> running s \<and> frames s = [] \<and> history s = []
      \<and> currentAbort s = None \<and> aborted s = [] \<and> next_promise s = 0)"

text \<open>
  A concrete scene for the queue: the execution service right after \<^verbatim>\<open>init\<close>, and two
  one-fragment chains.
\<close>

definition fresh_exec :: "unit os_state" where
  "fresh_exec = (blank_state 0)\<lparr>exec_enabled := True, exec_os := True\<rparr>"

definition chain_a :: chain where
  "chain_a = [\<lparr>frag_name = Some ''a'', frag_args = [], frag_flags = []\<rparr>]"

definition chain_b :: chain where
  "chain_b = [\<lparr>frag_name = Some ''b'', frag_args = [], frag_flags = []\<rparr>]"

text \<open>
  The next pipe as a table over what \<open>runSingle\<close> returned: one line object becomes a
  one-element array, an array stays, nothing becomes \<^verbatim>\<open>null\<close>, and any other value stays
  as it is.
\<close>

definition pipe_of_result :: "hresult \<Rightarrow> hresult" where
  "pipe_of_result r =
     (case r of
        RUndefined \<Rightarrow> RNull
      | RNull \<Rightarrow> RNull
      | RObj l \<Rightarrow> if otype l = ''line'' then RArr [l] else RObj l
      | RArr ls \<Rightarrow> RArr ls
      | RVal v \<Rightarrow> RVal v)"

text \<open>
  A registry whose handlers are the values they return: \<open>const_call\<close> runs such a
  handler. \<open>one_command r\<close> has the single command \<^verbatim>\<open>x\<close>, without parameters, whose
  handler returns \<open>r\<close>; \<open>frag_x\<close> is the fragment of the line \<^verbatim>\<open>x\<close>.
\<close>

definition const_call :: "hresult \<Rightarrow> params \<Rightarrow> hresult os_state \<Rightarrow> outcome \<times> hresult os_state" where
  "const_call r ps s = (Ret r, s)"

definition one_command :: "hresult \<Rightarrow> hresult os_state" where
  "one_command r =
     (blank_state 0)\<lparr>cmd_enabled := True, commands := [(''x'', (plain_body [], r))],
                     registeredCommands := [MSet [''x'']]\<rparr>"

definition frag_x :: fragment where
  "frag_x = \<lparr>frag_name = Some ''x'', frag_args = [], frag_flags = []\<rparr>"

definition html_line :: oline where
  "html_line = \<lparr>otype = ''html'', content = ''<b>hi</b>'', loc = Some []\<rparr>"

definition text_line :: oline where
  "text_line = \<lparr>otype = ''line'', content = ''hi'', loc = Some []\<rparr>"

text \<open>
  A stand-in for the built-in \<^verbatim>\<open>Number\<close> in concrete runs: it agrees with it on the
  strings of decimal digits (below \<open>2^53\<close>), the only strings it is applied to.
\<close>

definition digits_number :: "string \<Rightarrow> jsnum" where
  "digits_number s = (if s \<noteq> [] \<and> list_all is_digit s then Fin (of_nat (dec_value s)) else NaN)"

text \<open>The message of the \<^verbatim>\<open>service\<close> command for a critical service.\<close>

definition critical_message :: "string \<Rightarrow> string" where
  "critical_message serviceName =
     ''The '' @ [dquote] @ serviceName @ [dquote] @
     '' service is critical for the operation of the OS. '' @
     ''Use --confirm flag to confirm that you want to disable it.''"

text \<open>The state that the constructor of \<^verbatim>\<open>OS\<close> leaves, started at time 0.\<close>

definition booted :: "builtin os_state" where
  "booted = (case os_constructor 0 of Inr s \<Rightarrow> s | Inl e \<Rightarrow> blank_state 0)"

text \<open>An enabled registry in which only \<^verbatim>\<open>clear\<close>, with its alias \<^verbatim>\<open>cls\<close>, is defined.\<close>

definition clear_defined :: "builtin os_state" where
  "clear_defined =
     defineCommand ''clear'' ((plain_body [])\<lparr>balias := Some ''cls''\<rparr>) HClear
       ((blank_state 0)\<lparr>cmd_enabled := True\<rparr>)"

text \<open>The argument of the handler for the line \<^verbatim>\<open>service logs\<close>.\<close>

definition logs_params :: params where
  "logs_params = \<lparr>p_args = [''logs''], p_flags = [], p_pipe = RNull\<rparr>"

text \<open>The error of \<open>verify\<close> for a required positional parameter without an argument.\<close>

definition missing_message :: "param \<Rightarrow> string" where
  "missing_message p = ''Missing required argument: '' @ [dquote] @ pname p @ [dquote]"

text \<open>
  A registry with one command \<^verbatim>\<open>open\<close>: an optional positional \<^verbatim>\<open>mode\<close> with the allowed
  values \<^verbatim>\<open>r\<close> and \<^verbatim>\<open>w\<close>, then a required positional \<^verbatim>\<open>file\<close>.
\<close>

definition mode_param :: param where
  "mode_param = (positional ''mode'' False)\<lparr>poptions := Some [''r'', ''w'']\<rparr>"

definition file_param :: param where
  "file_param = (positional ''file'' True)\<lparr>pipeableFrom := Some ''text''\<rparr>"

definition open_defined :: "hresult os_state" where
  "open_defined =
     (blank_state 0)\<lparr>cmd_enabled := True,
                     commands := [(''open'', (plain_body [mode_param, file_param], RNull))],
                     registeredCommands := [MSet [''open'']]\<rparr>"




text \<open>
  The runs of a list: each maximal block of equal neighbours with its length. A run is
  shown with the suffix \<^verbatim>\<open>(xN)\<close> when it is longer than one.
\<close>

fun runs :: "string list \<Rightarrow> (string \<times> nat) list" where
  "runs [] = []"
| "runs (x # xs) =
     (case runs xs of
        [] \<Rightarrow> [(x, 1)]
      | (y, n) # rs \<Rightarrow> if x = y then (y, Suc n) # rs else (x, 1) # (y, n) # rs)"

definition show_run :: "string \<times> nat \<Rightarrow> string" where
  "show_run r = (if snd r > 1 then fst r @ '' (x'' @ show_nat (snd r) @ '')'' else fst r)"

chapter \<open>Properties\<close>

section \<open>The pipeline split\<close>












section \<open>The execution queue\<close>


lemma diag_record_exec [simp]:
  "queue (diag_record a s) = queue s"
  "running (diag_record a s) = running s"
  "frames (diag_record a s) = frames s"
  "history (diag_record a s) = history s"
  "currentAbort (diag_record a s) = currentAbort s"
  "aborted (diag_record a s) = aborted s"
  "next_promise (diag_record a s) = next_promise s"
  "exec_enabled (diag_record a s) = exec_enabled s"
  "exec_os (diag_record a s) = exec_os s"
  by (simp_all add: diag_record_def)

lemma output_add_exec [simp]:
  "queue (output_add l s) = queue s"
  "running (output_add l s) = running s"
  "frames (output_add l s) = frames s"
  "history (output_add l s) = history s"
  "currentAbort (output_add l s) = currentAbort s"
  "aborted (output_add l s) = aborted s"
  "next_promise (output_add l s) = next_promise s"
  "exec_enabled (output_add l s) = exec_enabled s"
  "exec_os (output_add l s) = exec_os s"
  by (simp_all add: output_add_def Let_def)

lemma output_flush_exec [simp]:
  "queue (output_flush s) = queue s"
  "running (output_flush s) = running s"
  "frames (output_flush s) = frames s"
  "history (output_flush s) = history s"
  "currentAbort (output_flush s) = currentAbort s"
  "aborted (output_flush s) = aborted s"
  "next_promise (output_flush s) = next_promise s"
  "exec_enabled (output_flush s) = exec_enabled s"
  "exec_os (output_flush s) = exec_os s"
  by (simp_all add: output_flush_def Let_def)

lemma svc_enable_exec [simp]:
  "queue (svc_enable v s) = queue s"
  "running (svc_enable v s) = running s"
  "frames (svc_enable v s) = frames s"
  "history (svc_enable v s) = history s"
  "currentAbort (svc_enable v s) = currentAbort s"
  "aborted (svc_enable v s) = aborted s"
  "next_promise (svc_enable v s) = next_promise s"
  "exec_os (svc_enable v s) = exec_os s"
  by (simp_all add: svc_enable_def split: svc.splits)

lemma svc_disable_exec [simp]:
  "queue (svc_disable v s) = queue s"
  "running (svc_disable v s) = running s"
  "frames (svc_disable v s) = frames s"
  "history (svc_disable v s) = history s"
  "currentAbort (svc_disable v s) = currentAbort s"
  "aborted (svc_disable v s) = aborted s"
  "next_promise (svc_disable v s) = next_promise s"
  "exec_os (svc_disable v s) = exec_os s"
  by (simp_all add: svc_disable_def split: svc.splits)

lemma starts_append [simp]: "starts (h @ h') = starts h @ starts h'"
  by (simp add: starts_def)

lemma starts_simps [simp]:
  "starts [] = []"
  "starts (Started p # h) = p # starts h"
  "starts (Resolved q v # h) = starts h"
  "starts (Rejected q # h) = starts h"
  by (simp_all add: starts_def)

lemma in_flight_snoc [simp]: "in_flight (h @ [ev]) = track (in_flight h) ev"
  by (simp add: in_flight_def)

lemma in_flight_Nil [simp]: "in_flight [] = Some None"
  by (simp add: in_flight_def)

lemma exec_inv_frame_cases:
  assumes "exec_inv s"
  obtains (idle) "frames s = []" "\<not> running s" "in_flight (history s) = Some None" "currentAbort s = None"
  | (busy) p c where "frames s = [(p, c)]" "running s" "in_flight (history s) = Some (Some p)"
      "currentAbort s = Some p"
proof (cases "frames s")
  case Nil
  with assms idle show ?thesis by (simp add: exec_inv_def frame_promise_def)
next
  case (Cons a fs)
  with assms have "fs = []" by (simp add: exec_inv_def)
  with Cons assms busy show ?thesis by (cases a) (simp add: exec_inv_def frame_promise_def)
qed

lemma exec_inv_runNext: "exec_inv s \<Longrightarrow> exec_inv (runNext s)"
proof -
  assume inv: "exec_inv s"
  show ?thesis
  proof (cases "exec_enabled s \<and> exec_os s \<and> \<not> running s \<and> queue s \<noteq> []")
    case False
    then show ?thesis using inv by (auto simp: runNext_def split: list.splits)
  next
    case True
    then obtain p c rest where q: "queue s = (p, c) # rest" by (cases "queue s") auto
    from True inv have fr: "frames s = []" and fl: "in_flight (history s) = Some None"
      by (auto simp: exec_inv_def frame_promise_def split: list.splits)
    have rn: "runNext s = s\<lparr>running := True, queue := rest, currentAbort := Some p, currentReject := Some p,
                  frames := frames s @ [(p, c)], history := history s @ [Started p]\<rparr>"
      using True q by (simp add: runNext_def)
    show ?thesis using inv unfolding rn by (simp add: exec_inv_def frame_promise_def fr fl q)
  qed
qed

lemma exec_inv_enqueue: "exec_inv s \<Longrightarrow> enqueue c s = Inr (r, s') \<Longrightarrow> exec_inv s'"
proof -
  assume inv: "exec_inv s" and e: "enqueue c s = Inr (r, s')"
  show ?thesis
  proof (cases "exec_enabled s")
    case False
    with e inv show ?thesis by (simp add: enqueue_def)
  next
    case True
    with e have os: "exec_os s" by (auto simp: enqueue_def split: if_splits)
    let ?s2 = "(diag_record (''CommandExecService_enqueue '' @ simplify c) (s\<lparr>next_promise := next_promise s + 1\<rparr>))
                 \<lparr>queue := queue s @ [(next_promise s, c)]\<rparr>"
    from e True os have s': "s' = runNext ?s2" by (simp add: enqueue_def Let_def)
    have "exec_inv ?s2" using inv
      by (auto simp: exec_inv_def frame_promise_def sorted_wrt_append list_all_iff less_Suc_eq)
    then show ?thesis unfolding s' by (rule exec_inv_runNext)
  qed
qed

lemma exec_inv_interrupt: "exec_inv s \<Longrightarrow> exec_inv (interrupt s)"
  by (auto simp: interrupt_def exec_inv_def frame_promise_def Let_def sorted_wrt_append list_all_iff
      split: option.splits)

lemma exec_inv_toggle: "exec_inv s \<Longrightarrow> exec_inv (svc_enable v s)" "exec_inv s \<Longrightarrow> exec_inv (svc_disable v s)"
  by (simp_all add: exec_inv_def frame_promise_def)



lemma finish_frame_exec:
  assumes "frames s = [(p, c)]"
  shows "frames (finish_frame 0 p c out s) = []"
    "\<not> running (finish_frame 0 p c out s)"
    "currentAbort (finish_frame 0 p c out s) = None"
    "history (finish_frame 0 p c out s) = history s @ [Resolved p (resolved_value out)]"
    "queue (finish_frame 0 p c out s) = queue s"
    "next_promise (finish_frame 0 p c out s) = next_promise s"
    "aborted (finish_frame 0 p c out s) = aborted s"
    "exec_enabled (finish_frame 0 p c out s) = exec_enabled s"
    "exec_os (finish_frame 0 p c out s) = exec_os s"
proof -
  show "frames (finish_frame 0 p c out s) = []"
    using assms by (simp add: finish_frame_def resolve_def Let_def split: outcome.splits exn.splits)
  show "\<not> running (finish_frame 0 p c out s)"
    by (simp add: finish_frame_def resolve_def Let_def split: outcome.splits exn.splits)
  show "currentAbort (finish_frame 0 p c out s) = None"
    by (simp add: finish_frame_def resolve_def Let_def split: outcome.splits exn.splits)
  show "history (finish_frame 0 p c out s) = history s @ [Resolved p (resolved_value out)]"
    by (simp add: finish_frame_def resolve_def resolved_value_def Let_def split: outcome.splits exn.splits)
  show "queue (finish_frame 0 p c out s) = queue s"
    by (simp add: finish_frame_def resolve_def Let_def split: outcome.splits exn.splits)
  show "next_promise (finish_frame 0 p c out s) = next_promise s"
    by (simp add: finish_frame_def resolve_def Let_def split: outcome.splits exn.splits)
  show "aborted (finish_frame 0 p c out s) = aborted s"
    by (simp add: finish_frame_def resolve_def Let_def split: outcome.splits exn.splits)
  show "exec_enabled (finish_frame 0 p c out s) = exec_enabled s"
    by (simp add: finish_frame_def resolve_def Let_def split: outcome.splits exn.splits)
  show "exec_os (finish_frame 0 p c out s) = exec_os s"
    by (simp add: finish_frame_def resolve_def Let_def split: outcome.splits exn.splits)
qed

lemma settle_frame:
  assumes "frames s = [(p, c)]"
  shows "settle 0 out s =
           (if p \<in> set (aborted s) then finish_frame 0 p c out s else runNext (finish_frame 0 p c out s))"
  using assms finish_frame_exec(7)[OF assms, of out] by (simp add: settle_def Let_def)

lemma settle_out_of_range: "i \<ge> length (frames s) \<Longrightarrow> settle i out s = s"
  by (simp add: settle_def)

lemma exec_inv_settle: "exec_inv s \<Longrightarrow> exec_inv (settle i out s)"
proof -
  assume inv: "exec_inv s"
  from inv show ?thesis
  proof (cases rule: exec_inv_frame_cases)
    case idle
    then show ?thesis using inv by (simp add: settle_out_of_range)
  next
    case (busy p c)
    show ?thesis
    proof (cases i)
      case (Suc j)
      then show ?thesis using inv busy by (simp add: settle_out_of_range)
    next
      case 0
      have "exec_inv (finish_frame 0 p c out s)" using inv busy finish_frame_exec[OF busy(1), of out]
        by (simp add: exec_inv_def frame_promise_def)
      then show ?thesis using settle_frame[OF busy(1), of out] 0 by (simp add: exec_inv_runNext)
    qed
  qed
qed

lemma exec_inv_step: "exec_inv s \<Longrightarrow> exec_inv (step ev s)"
proof (cases ev)
  case (Enqueue c)
  assume "exec_inv s"
  then show ?thesis using Enqueue exec_inv_enqueue[of s c]
    by (auto split: sum.splits)
next
  case (Advance t)
  assume "exec_inv s"
  then show ?thesis using Advance by (simp add: exec_inv_def frame_promise_def)
qed (simp_all add: exec_inv_settle exec_inv_interrupt exec_inv_toggle)

lemma exec_inv_run_events: "exec_inv s \<Longrightarrow> exec_inv (run_events evs s)"
  unfolding run_events_def by (induction evs arbitrary: s) (simp_all add: exec_inv_step)

lemma exec_fresh_inv: "exec_fresh s \<Longrightarrow> exec_inv s"
  by (simp add: exec_fresh_def exec_inv_def frame_promise_def)

lemma track_None [simp]: "track None ev = None"
  by (cases ev) simp_all










section \<open>Interrupting a running chain\<close>


lemma interrupt_exec:
  assumes "exec_enabled s" "exec_os s" "currentAbort s = Some p"
  shows "queue (interrupt s) = []" "aborted (interrupt s) = p # aborted s"
    "frames (interrupt s) = frames s" "history (interrupt s) = history s"
    "running (interrupt s) = running s" "exec_enabled (interrupt s)" "exec_os (interrupt s)"
    "next_promise (interrupt s) = next_promise s" "currentAbort (interrupt s) = Some p"
  using assms by (simp_all add: interrupt_def Let_def)

lemma runNext_busy: "running s \<Longrightarrow> runNext s = s"
  by (simp add: runNext_def)

lemma enqueue_busy:
  assumes "exec_enabled s" "exec_os s" "running s"
  shows "\<exists>s'. enqueue c s = Inr (Some (next_promise s), s') \<and> queue s' = queue s @ [(next_promise s, c)]
      \<and> frames s' = frames s \<and> history s' = history s \<and> aborted s' = aborted s \<and> running s'"
  using assms by (simp add: enqueue_def Let_def runNext_busy)

lemma rc_loop_aborted:
  "fst (rc_loop num call (part # rest) done True pipe st) = Throw AbortError"
  by simp

text \<open>
  Claim C3, as amended. In any reachable state in which a chain is in flight and the
  execution service is enabled, \<open>interrupt\<close> empties the queue, aborts the controller of
  the frame in flight, and starts nothing: the frame and the history stay as they are.
  Whatever the interrupted run then returns or throws, its promise is resolved (with
  \<^verbatim>\<open>null\<close> when it throws, as it does with \<^verbatim>\<open>AbortError\<close> at the next fragment of a chain
  whose signal is aborted), the running slot is released and no queued chain is started,
  not even one enqueued after the interrupt.
\<close>

theorem interrupt_mid_flight:
  assumes fresh: "exec_fresh s0"
    and s: "s = run_events evs s0"
    and busy: "frames s \<noteq> []"
    and en: "exec_enabled s"
  shows "\<exists>p c. frames s = [(p, c)]
      \<and> queue (interrupt s) = []
      \<and> p \<in> set (aborted (interrupt s))
      \<and> frames (interrupt s) = frames s \<and> running (interrupt s)
      \<and> history (interrupt s) = history s
      \<and> (\<forall>out. history (settle 0 out (interrupt s)) = history s @ [Resolved p (resolved_value out)]
             \<and> frames (settle 0 out (interrupt s)) = []
             \<and> \<not> running (settle 0 out (interrupt s))
             \<and> queue (settle 0 out (interrupt s)) = [])
      \<and> (\<forall>out c'. history (settle 0 out (step (Enqueue c') (interrupt s)))
               = history s @ [Resolved p (resolved_value out)]
             \<and> frames (settle 0 out (step (Enqueue c') (interrupt s))) = []
             \<and> map snd (queue (settle 0 out (step (Enqueue c') (interrupt s)))) = [c'])
      \<and> resolved_value (Throw AbortError) = RNull
      \<and> (\<forall>num (call :: 'h \<Rightarrow> params \<Rightarrow> 'h os_state \<Rightarrow> outcome \<times> 'h os_state) part rest done pipe st.
            fst (rc_loop num call (part # rest) done True pipe st) = Throw AbortError)"
proof -
  have inv: "exec_inv s" unfolding s using fresh by (intro exec_inv_run_events exec_fresh_inv)
  from inv busy obtain p c where fr: "frames s = [(p, c)]" and run: "running s"
    and ca: "currentAbort s = Some p"
    by (cases rule: exec_inv_frame_cases) auto
  have os: "exec_os s" using inv by (simp add: exec_inv_def)
  note i = interrupt_exec[OF en os ca]
  have fi: "frames (interrupt s) = [(p, c)]" using i fr by simp
  have ab: "p \<in> set (aborted (interrupt s))" using i by simp
  have settle1: "history (settle 0 out (interrupt s)) = history s @ [Resolved p (resolved_value out)]
             \<and> frames (settle 0 out (interrupt s)) = []
             \<and> \<not> running (settle 0 out (interrupt s))
             \<and> queue (settle 0 out (interrupt s)) = []" for out
    using settle_frame[OF fi, of out] ab finish_frame_exec[OF fi, of out] i by simp
  have settle2: "history (settle 0 out (step (Enqueue c') (interrupt s)))
               = history s @ [Resolved p (resolved_value out)]
             \<and> frames (settle 0 out (step (Enqueue c') (interrupt s))) = []
             \<and> map snd (queue (settle 0 out (step (Enqueue c') (interrupt s)))) = [c']" for out c'
  proof -
    have ri: "running (interrupt s)" using i run by simp
    from enqueue_busy[OF i(6) i(7) ri, of c'] obtain s' where
      e: "enqueue c' (interrupt s) = Inr (Some (next_promise (interrupt s)), s')"
      and q: "queue s' = queue (interrupt s) @ [(next_promise (interrupt s), c')]"
      and f: "frames s' = frames (interrupt s)" and h: "history s' = history (interrupt s)"
      and a: "aborted s' = aborted (interrupt s)"
      by blast
    have st: "step (Enqueue c') (interrupt s) = s'" using e by simp
    have fs': "frames s' = [(p, c)]" using f fi by simp
    have "p \<in> set (aborted s')" using a ab by simp
    then show ?thesis
      unfolding st using settle_frame[OF fs', of out] finish_frame_exec[OF fs', of out] q h i by simp
  qed
  have "resolved_value (Throw AbortError) = RNull" by (simp add: resolved_value_def)
  with fr i run ab settle1 settle2 rc_loop_aborted show ?thesis by (auto simp del: rc_loop.simps)
qed


theorem interrupt_mid_flight_witness:
  "exec_fresh fresh_exec
   \<and> frames (run_events [Enqueue chain_a, Enqueue chain_b] fresh_exec) = [(0, chain_a)]
   \<and> exec_enabled (run_events [Enqueue chain_a, Enqueue chain_b] fresh_exec)
   \<and> queue (run_events [Enqueue chain_a, Enqueue chain_b] fresh_exec) = [(1, chain_b)]
   \<and> queue (interrupt (run_events [Enqueue chain_a, Enqueue chain_b] fresh_exec)) = []
   \<and> 0 \<in> set (aborted (interrupt (run_events [Enqueue chain_a, Enqueue chain_b] fresh_exec)))
   \<and> history (settle 0 (Throw AbortError)
        (interrupt (run_events [Enqueue chain_a, Enqueue chain_b] fresh_exec)))
       = [Started 0, Resolved 0 RNull]"
proof -
  let ?s = "run_events [Enqueue chain_a, Enqueue chain_b] fresh_exec"
  have fresh: "exec_fresh fresh_exec" by (simp add: exec_fresh_def fresh_exec_def blank_state_def)
  have fr: "frames ?s = [(0, chain_a)]"
    by (simp add: run_events_def enqueue_def runNext_def diag_record_def fresh_exec_def
        blank_state_def Let_def)
  have en: "exec_enabled ?s"
    by (simp add: run_events_def enqueue_def runNext_def diag_record_def fresh_exec_def
        blank_state_def Let_def)
  have q: "queue ?s = [(1, chain_b)]"
    by (simp add: run_events_def enqueue_def runNext_def diag_record_def fresh_exec_def
        blank_state_def Let_def)
  have h: "history ?s = [Started 0]"
    by (simp add: run_events_def enqueue_def runNext_def diag_record_def fresh_exec_def
        blank_state_def Let_def)
  have busy: "frames ?s \<noteq> []" using fr by simp
  from interrupt_mid_flight[OF fresh refl busy en] obtain p c where
    f: "frames ?s = [(p, c)]" and qi: "queue (interrupt ?s) = []"
    and ab: "p \<in> set (aborted (interrupt ?s))"
    and st: "\<forall>out. history (settle 0 out (interrupt ?s)) = history ?s @ [Resolved p (resolved_value out)]
             \<and> frames (settle 0 out (interrupt ?s)) = []
             \<and> \<not> running (settle 0 out (interrupt ?s))
             \<and> queue (settle 0 out (interrupt ?s)) = []"
    by blast
  from f fr have p0: "p = 0" by simp
  from st have "history (settle 0 (Throw AbortError) (interrupt ?s))
      = history ?s @ [Resolved p (resolved_value (Throw AbortError))]" by blast
  then have hs: "history (settle 0 (Throw AbortError) (interrupt ?s)) = [Started 0, Resolved 0 RNull]"
    using h p0 by (simp add: resolved_value_def)
  from fresh fr en q qi ab p0 hs show ?thesis by simp
qed

text \<open>
  The claim as written fails in two ways. With the chain of promise 0 in flight and its
  \<^verbatim>\<open>reject\<close> stored in \<^verbatim>\<open>currentReject\<close>, \<open>interrupt\<close> calls no \<^verbatim>\<open>reject\<close>: the history
  holds no rejection, neither after the interrupt nor after the run has ended. And when
  the service was disabled while the chain ran, \<open>interrupt\<close> does nothing: the queue keeps
  its chain and no controller is aborted.
\<close>

theorem interrupt_claim_counterexample:
  "frames (run_events [Enqueue chain_a, Enqueue chain_b] fresh_exec) = [(0, chain_a)]
   \<and> currentReject (run_events [Enqueue chain_a, Enqueue chain_b] fresh_exec) = Some 0
   \<and> history (interrupt (run_events [Enqueue chain_a, Enqueue chain_b] fresh_exec)) = [Started 0]
   \<and> history (settle 0 (Throw AbortError)
        (interrupt (run_events [Enqueue chain_a, Enqueue chain_b] fresh_exec)))
       = [Started 0, Resolved 0 RNull]
   \<and> frames (run_events [Enqueue chain_a, Enqueue chain_b, Disable SCommandExec] fresh_exec)
       = [(0, chain_a)]
   \<and> queue (interrupt (run_events [Enqueue chain_a, Enqueue chain_b, Disable SCommandExec] fresh_exec))
       = [(1, chain_b)]
   \<and> aborted (interrupt (run_events [Enqueue chain_a, Enqueue chain_b, Disable SCommandExec] fresh_exec))
       = []"
  by (simp add: run_events_def enqueue_def runNext_def interrupt_def settle_def finish_frame_def
      resolve_def output_add_def output_flush_def svc_disable_def diag_record_def fresh_exec_def
      blank_state_def Let_def)

section \<open>The empty chain\<close>


lemma js_ws_not_special:
  "js_ws ch \<Longrightarrow> ch \<noteq> bslash \<and> ch \<noteq> squote \<and> ch \<noteq> dquote \<and> ch \<noteq> CHR ''|''"
  by (auto simp: js_ws_def)

lemma trim_blank: "\<forall>ch \<in> set cur. js_ws ch \<Longrightarrow> trim cur = []"
  by (auto simp: trim_def dest: set_dropWhileD)

lemma pp_loop_blank:
  "\<forall>ch \<in> set s. js_ws ch \<or> ch = CHR ''|'' \<Longrightarrow> \<forall>ch \<in> set cur. js_ws ch \<Longrightarrow>
   pp_loop s parts cur False False False = parts"
proof (induction s arbitrary: cur)
  case Nil
  then show ?case by (simp add: push_stage_def trim_blank)
next
  case (Cons ch rest)
  show ?case
  proof (cases "ch = CHR ''|''")
    case True
    have "pp_loop rest parts [] False False False = parts" using Cons by simp
    then show ?thesis using True Cons.prems(2) by (simp add: push_stage_def trim_blank)
  next
    case False
    with Cons.prems(1) have ws: "js_ws ch" by simp
    have "pp_loop rest parts (cur @ [ch]) False False False = parts"
      using Cons ws by simp
    then show ?thesis using False js_ws_not_special[OF ws] by simp
  qed
qed

lemma parseCommand_blank:
  "\<forall>ch \<in> set input. js_ws ch \<or> ch = CHR ''|'' \<Longrightarrow> parseCommand input = []"
  by (simp add: parseCommand_def parsePipeline_def pp_loop_blank)

lemma runChain_empty: "runChain num call [] sig s = (Ret RNull, [], s)"
  by (simp add: runChain_def)

lemma enqueue_fresh:
  assumes "exec_fresh s"
  shows "enqueue c s = Inr (Some 0,
           (diag_record (''CommandExecService_enqueue '' @ simplify c) (s\<lparr>next_promise := 1\<rparr>))
             \<lparr>queue := [], running := True, currentAbort := Some 0, currentReject := Some 0,
               frames := [(0, c)], history := [Started 0]\<rparr>)"
  using assms by (simp add: exec_fresh_def enqueue_def runNext_def Let_def)

lemma diag_record_other [simp]:
  "buffer (diag_record a s) = buffer s"
  "screen (diag_record a s) = screen s"
  "console (diag_record a s) = console s"
  "out_enabled (diag_record a s) = out_enabled s"
  "cmd_enabled (diag_record a s) = cmd_enabled s"
  "savior_enabled (diag_record a s) = savior_enabled s"
  "diag_enabled (diag_record a s) = diag_enabled s"
  "commands (diag_record a s) = commands s"
  "registeredCommands (diag_record a s) = registeredCommands s"
  "now (diag_record a s) = now s"
  by (simp_all add: diag_record_def)

text \<open>
  Claim C10. A line of white space and \<^verbatim>\<open>|\<close> only parses to the chain without
  fragments. \<open>runChain\<close> on it returns \<^verbatim>\<open>null\<close> and leaves the state as it is, whatever
  the handlers are and whatever the signal is: no handler is called, nothing is added to
  the output buffer, nothing is thrown. Enqueued on a fresh execution service, the chain
  is started and its promise is resolved with \<^verbatim>\<open>null\<close>; the buffer, the screen and the
  console are as before.
\<close>

theorem blank_line_runs_nothing:
  assumes blank: "\<forall>ch \<in> set input. js_ws ch \<or> ch = CHR ''|''"
  shows "parseCommand input = []
    \<and> (\<forall>num (call :: 'h \<Rightarrow> params \<Rightarrow> 'h os_state \<Rightarrow> outcome \<times> 'h os_state) sig s.
          runChain num call (parseCommand input) sig s = (Ret RNull, [], s))
    \<and> (\<forall>num (call :: 'h \<Rightarrow> params \<Rightarrow> 'h os_state \<Rightarrow> outcome \<times> 'h os_state) s.
          exec_fresh s \<longrightarrow>
          (\<exists>s1. enqueue (parseCommand input) s = Inr (Some 0, s1)
             \<and> frames s1 = [(0, [])]
             \<and> history (run_frame num call 0 s1) = [Started 0, Resolved 0 RNull]
             \<and> frames (run_frame num call 0 s1) = []
             \<and> buffer (run_frame num call 0 s1) = buffer s
             \<and> screen (run_frame num call 0 s1) = screen s
             \<and> console (run_frame num call 0 s1) = console s))"
proof -
  have p: "parseCommand input = []" using blank by (rule parseCommand_blank)
  have e: "\<exists>s1. enqueue [] s = Inr (Some 0, s1)
             \<and> frames s1 = [(0, [])]
             \<and> history (run_frame num call 0 s1) = [Started 0, Resolved 0 RNull]
             \<and> frames (run_frame num call 0 s1) = []
             \<and> buffer (run_frame num call 0 s1) = buffer s
             \<and> screen (run_frame num call 0 s1) = screen s
             \<and> console (run_frame num call 0 s1) = console s"
    if fresh: "exec_fresh s" for num and call :: "'h \<Rightarrow> params \<Rightarrow> 'h os_state \<Rightarrow> outcome \<times> 'h os_state" and s
  proof -
    let ?s1 = "(diag_record (''CommandExecService_enqueue '' @ simplify []) (s\<lparr>next_promise := 1\<rparr>))
             \<lparr>queue := [], running := True, currentAbort := Some 0, currentReject := Some 0,
               frames := [(0, [])], history := [Started 0]\<rparr>"
    have en: "enqueue [] s = Inr (Some 0, ?s1)" by (rule enqueue_fresh[OF fresh])
    have ab: "aborted ?s1 = []" using fresh by (simp add: exec_fresh_def)
    have rf: "run_frame num call 0 ?s1 = settle 0 (Ret RNull) ?s1"
      by (simp add: run_frame_def runChain_empty)
    have st: "settle 0 (Ret RNull) ?s1 = runNext (finish_frame 0 0 [] (Ret RNull) ?s1)"
      using settle_frame[of ?s1 0 "[]" "Ret RNull"] ab by simp
    have ff: "finish_frame 0 0 [] (Ret RNull) ?s1 =
         ?s1\<lparr>history := [Started 0, Resolved 0 RNull], currentAbort := None, currentReject := None,
              running := False, frames := []\<rparr>"
      by (simp add: finish_frame_def resolve_def)
    have rn: "runNext (finish_frame 0 0 [] (Ret RNull) ?s1) = finish_frame 0 0 [] (Ret RNull) ?s1"
      unfolding ff by (simp add: runNext_def)
    have fin: "run_frame num call 0 ?s1 =
         ?s1\<lparr>history := [Started 0, Resolved 0 RNull], currentAbort := None, currentReject := None,
              running := False, frames := []\<rparr>"
      using rf st rn ff by simp
    have "frames ?s1 = [(0, [])]" by simp
    moreover have "history (run_frame num call 0 ?s1) = [Started 0, Resolved 0 RNull]"
      unfolding fin by simp
    moreover have "frames (run_frame num call 0 ?s1) = []" unfolding fin by simp
    moreover have "buffer (run_frame num call 0 ?s1) = buffer s" unfolding fin by simp
    moreover have "screen (run_frame num call 0 ?s1) = screen s" unfolding fin by simp
    moreover have "console (run_frame num call 0 ?s1) = console s" unfolding fin by simp
    ultimately show ?thesis using en by blast
  qed
  have r: "\<forall>num (call :: 'h \<Rightarrow> params \<Rightarrow> 'h os_state \<Rightarrow> outcome \<times> 'h os_state) sig s.
          runChain num call (parseCommand input) sig s = (Ret RNull, [], s)"
    unfolding p by (simp add: runChain_empty)
  show ?thesis using p r e by simp
qed


theorem blank_line_runs_nothing_witness:
  "parseCommand '' |  | '' = []
   \<and> runChain digits_number const_call (parseCommand '' |  | '') False (one_command RNull)
       = (Ret RNull, [], one_command RNull)
   \<and> exec_fresh fresh_exec
   \<and> (\<exists>s1. enqueue (parseCommand '' |  | '') fresh_exec = Inr (Some 0, s1)
         \<and> history (run_frame digits_number (\<lambda>h ps s. (Throw (JSError ''called''), s)) 0 s1)
             = [Started 0, Resolved 0 RNull]
         \<and> buffer (run_frame digits_number (\<lambda>h ps s. (Throw (JSError ''called''), s)) 0 s1) = [])"
proof -
  have blank: "\<forall>ch \<in> set '' |  | ''. js_ws ch \<or> ch = CHR ''|''" by (simp add: js_ws_def)
  have fresh: "exec_fresh fresh_exec" by (simp add: exec_fresh_def fresh_exec_def blank_state_def)
  have b: "buffer fresh_exec = []" by (simp add: fresh_exec_def blank_state_def)
  from blank_line_runs_nothing[OF blank]
  have p: "parseCommand '' |  | '' = []"
    and r: "\<forall>num (call :: hresult \<Rightarrow> params \<Rightarrow> hresult os_state \<Rightarrow> outcome \<times> hresult os_state) sig s.
          runChain num call (parseCommand '' |  | '') sig s = (Ret RNull, [], s)"
    by blast+
  from blank_line_runs_nothing[OF blank]
  have "\<forall>num (call :: unit \<Rightarrow> params \<Rightarrow> unit os_state \<Rightarrow> outcome \<times> unit os_state) s.
          exec_fresh s \<longrightarrow>
          (\<exists>s1. enqueue (parseCommand '' |  | '') s = Inr (Some 0, s1)
             \<and> frames s1 = [(0, [])]
             \<and> history (run_frame num call 0 s1) = [Started 0, Resolved 0 RNull]
             \<and> frames (run_frame num call 0 s1) = []
             \<and> buffer (run_frame num call 0 s1) = buffer s
             \<and> screen (run_frame num call 0 s1) = screen s
             \<and> console (run_frame num call 0 s1) = console s)"
    by blast
  with fresh obtain s1 where "enqueue (parseCommand '' |  | '') fresh_exec = Inr (Some 0, s1)"
    "history (run_frame digits_number (\<lambda>h ps s. (Throw (JSError ''called''), s)) 0 s1)
       = [Started 0, Resolved 0 RNull]"
    "buffer (run_frame digits_number (\<lambda>h ps s. (Throw (JSError ''called''), s)) 0 s1) = buffer fresh_exec"
    by blast
  with p r fresh b show ?thesis by auto
qed

section \<open>From a result to the next pipe\<close>


lemma to_pipe_table: "to_pipe r = pipe_of_result r"
  by (cases r) (simp_all add: to_pipe_def pipe_of_result_def)

lemma runSingle_Ret:
  assumes "runSingle num call part sig pipe s = (Ret result, part1, s1)"
  shows "result \<noteq> RUndefined \<and> (\<forall>l. result = RObj l \<longrightarrow> otype l \<noteq> ''error'')"
  using assms
  by (auto simp: runSingle_def Let_def
      split: prod.splits vresult.splits if_splits option.splits outcome.splits hresult.splits)

lemma runSingle_one_command:
  "runSingle num const_call frag_x False pipe (one_command r) =
     ((case r of
         RObj l \<Rightarrow> if otype l = ''error'' then Throw (OSError (content l)) else Ret r
       | RUndefined \<Rightarrow> Ret RNull
       | _ \<Rightarrow> Ret r),
      frag_x, one_command r)"
  by (simp add: runSingle_def verify_def frag_x_def one_command_def const_call_def blank_state_def
      plain_body_def positionalSchema_def flagSchema_of_def js_keys_def js_entries_def
      registered_names_def obj_get_def js_str_def diag_record_def Let_def
      split: hresult.splits)


lemma runChain_one_command:
  "fst (runChain num const_call [frag_x] False (one_command r)) =
     (case r of
        RObj l \<Rightarrow> if otype l = ''error'' then Throw (OSError (content l)) else Ret (pipe_of_result r)
      | _ \<Rightarrow> Ret (pipe_of_result r))"
  by (cases r) (simp_all add: runChain_def runSingle_one_command to_pipe_table pipe_of_result_def)

text \<open>
  Claim C2, as amended. What \<open>runSingle\<close> returns for a fragment is the handler's result,
  with nothing turned into \<^verbatim>\<open>null\<close>; a handler's error line is thrown as an \<^verbatim>\<open>OSError\<close>
  and ends the chain. \<open>runChain\<close> goes on with the next pipe \<open>pipe_of_result\<close>: one line
  object of type \<^verbatim>\<open>line\<close> becomes a one-element array, an array stays as it is, nothing
  becomes \<^verbatim>\<open>null\<close>, and any other result (an object of another type, a primitive) is
  passed on unchanged. For the one-command registry this is stated for every value \<open>r\<close>
  that the handler may return.
\<close>

theorem result_becomes_pipe:
  "(runSingle num call part False pipe s = (Ret result, part1, s1) \<longrightarrow>
      rc_loop num call (part # rest) done False pipe s
        = rc_loop num call rest (done @ [part1]) False (pipe_of_result result) s1
      \<and> result \<noteq> RUndefined \<and> (\<forall>l. result = RObj l \<longrightarrow> otype l \<noteq> ''error''))
   \<and> (runSingle num call part False RNull s = (Ret result, part1, s1) \<longrightarrow>
        fst (runChain num call [part] False s) = Ret (pipe_of_result result))
   \<and> (runSingle num call part False pipe s = (Throw e, part1, s1) \<longrightarrow>
        rc_loop num call (part # rest) done False pipe s = (Throw e, done @ part1 # rest, s1))
   \<and> fst (runChain num const_call [frag_x] False (one_command r)) =
        (case r of
           RObj l \<Rightarrow> if otype l = ''error'' then Throw (OSError (content l)) else Ret (pipe_of_result r)
         | _ \<Rightarrow> Ret (pipe_of_result r))"
proof -
  have a: "rc_loop num call (part # rest) done False pipe s
        = rc_loop num call rest (done @ [part1]) False (pipe_of_result result) s1
      \<and> result \<noteq> RUndefined \<and> (\<forall>l. result = RObj l \<longrightarrow> otype l \<noteq> ''error'')"
    if h: "runSingle num call part False pipe s = (Ret result, part1, s1)"
    using h runSingle_Ret[OF h] by (simp add: to_pipe_table)
  have b: "fst (runChain num call [part] False s) = Ret (pipe_of_result result)"
    if h: "runSingle num call part False RNull s = (Ret result, part1, s1)"
    using h by (simp add: runChain_def to_pipe_table split: hresult.splits)
  have c: "rc_loop num call (part # rest) done False pipe s = (Throw e, done @ part1 # rest, s1)"
    if h: "runSingle num call part False pipe s = (Throw e, part1, s1)"
    using h by simp
  show ?thesis using a b c runChain_one_command[of num r] by blast
qed

theorem result_becomes_pipe_witness:
  "runSingle digits_number const_call frag_x False RNull (one_command (RObj text_line))
     = (Ret (RObj text_line), frag_x, one_command (RObj text_line))
   \<and> fst (runChain digits_number const_call [frag_x] False (one_command (RObj text_line)))
       = Ret (RArr [text_line])
   \<and> fst (runChain digits_number const_call [frag_x] False (one_command (RArr [text_line, html_line])))
       = Ret (RArr [text_line, html_line])
   \<and> fst (runChain digits_number const_call [frag_x] False (one_command RUndefined)) = Ret RNull"
proof -
  have rs: "runSingle digits_number const_call frag_x False RNull (one_command (RObj text_line))
     = (Ret (RObj text_line), frag_x, one_command (RObj text_line))"
    by (simp add: runSingle_one_command text_line_def)
  from result_becomes_pipe[of digits_number const_call frag_x RNull "one_command (RObj text_line)"
      "RObj text_line" frag_x "one_command (RObj text_line)" "[]" "[]" "OSError []" "RObj text_line"] rs
  have 1: "fst (runChain digits_number const_call [frag_x] False (one_command (RObj text_line)))
       = Ret (pipe_of_result (RObj text_line))"
    by blast
  from result_becomes_pipe[of digits_number const_call frag_x RNull "one_command (RObj text_line)"
      "RObj text_line" frag_x "one_command (RObj text_line)" "[]" "[]" "OSError []" "RArr [text_line, html_line]"]
  have 2: "fst (runChain digits_number const_call [frag_x] False (one_command (RArr [text_line, html_line])))
       = Ret (pipe_of_result (RArr [text_line, html_line]))"
    by simp
  from result_becomes_pipe[of digits_number const_call frag_x RNull "one_command (RObj text_line)"
      "RObj text_line" frag_x "one_command (RObj text_line)" "[]" "[]" "OSError []" RUndefined]
  have 3: "fst (runChain digits_number const_call [frag_x] False (one_command RUndefined))
       = Ret (pipe_of_result RUndefined)"
    by simp
  show ?thesis using rs 1 2 3 by (simp add: pipe_of_result_def text_line_def)
qed

text \<open>
  The claim as written fails: a handler that returns one \<^verbatim>\<open>html\<close> line, or a string, does
  not make the pipe \<^verbatim>\<open>null\<close>; \<open>runChain\<close> returns that very value.
\<close>

theorem any_other_result_counterexample:
  "fst (runChain digits_number const_call [frag_x] False (one_command (RObj html_line)))
     = Ret (RObj html_line)
   \<and> RObj html_line \<noteq> RNull
   \<and> fst (runChain digits_number const_call [frag_x] False (one_command (RVal (VStr ''text''))))
     = Ret (RVal (VStr ''text''))
   \<and> RVal (VStr ''text'') \<noteq> RNull"
  by (simp add: runChain_def runSingle_one_command to_pipe_def html_line_def)

section \<open>Disabling a critical service\<close>


lemma parse_service_disable:
  "parseCommand ''service disable commandexec'' =
     [\<lparr>frag_name = Some ''service'', frag_args = [''disable'', ''commandexec''], frag_flags = []\<rparr>]"
  by (simp add: parseCommand_def parsePipeline_def push_stage_def trim_def js_ws_def
      parseCommandFragment_def)

lemma verify_service_disable:
  assumes "cmd_enabled s" "obj_get (commands s) ''service'' = Some (service_body, fn)"
  shows "verify num (Some ''service'') [''disable'', ''commandexec''] [] s =
           (VValid, [], diag_record ''CommandService_verify service'' s)"
  using assms
  by (simp add: verify_def js_str_def positionalSchema_def flagSchema_of_def service_body_def
      plain_body_def positional_def bool_flag_def js_keys_def js_entries_def Let_def)

lemma service_handler_disable_critical:
  "service_handler ts \<lparr>p_args = [''disable'', ''commandexec''], p_flags = [], p_pipe = pipe\<rparr> s =
     (Ret (RObj \<lparr>otype = ''error'', content = critical_message ''commandexec'', loc = None\<rparr>), s)"
  by (simp add: service_handler_def service_toggle_def serviceMap_def toLowerCase_def lower_char_def
      criticalServices_def truthy_def obj_get_def critical_message_def)

lemma registered_names_diag_record [simp]:
  "registered_names (diag_record a s) = registered_names s"
  by (simp add: registered_names_def)

lemma runSingle_service_disable:
  assumes "cmd_enabled s" "obj_get (commands s) ''service'' = Some (service_body, HService)"
    "''service'' \<in> set (registered_names s)"
  shows "runSingle num (builtin_call ts ext)
           \<lparr>frag_name = Some ''service'', frag_args = [''disable'', ''commandexec''], frag_flags = []\<rparr>
           False pipe s =
         (Throw (OSError (critical_message ''commandexec'')),
          \<lparr>frag_name = Some ''service'', frag_args = [''disable'', ''commandexec''], frag_flags = []\<rparr>,
          diag_record ''CommandExecService_run service'' (diag_record ''CommandService_verify service'' s))"
proof -
  show ?thesis
    using assms
    by (simp add: runSingle_def verify_service_disable[OF assms(1,2)]
        js_str_def js_entries_def flagSchema_of_def builtin_call_def
        service_handler_disable_critical Let_def)
qed


lemma diag_record_flags [simp]:
  "exec_enabled (diag_record a s) = exec_enabled s"
  by (simp add: diag_record_def)

lemma output_add_enabled:
  "out_enabled s \<Longrightarrow> buffer (output_add l s) = buffer s @ [l]"
  by (simp add: output_add_def Let_def)

lemma output_add_flags [simp]:
  "cmd_enabled (output_add l s) = cmd_enabled s"
  "out_enabled (output_add l s) = out_enabled s"
  "diag_enabled (output_add l s) = diag_enabled s"
  "savior_enabled (output_add l s) = savior_enabled s"
  by (simp_all add: output_add_def Let_def)

lemma run_frame_single:
  "frames s = [(p, c)] \<Longrightarrow>
   run_frame num call 0 s =
     (case runChain num call c (p \<in> set (aborted s)) s of (out, c1, s1) \<Rightarrow> settle 0 out s1)"
  by (simp add: run_frame_def)

text \<open>
  Claim C7. In every state in which the registry is enabled and \<^verbatim>\<open>service\<close> is defined
  as in \<^verbatim>\<open>defineCommands\<close> and registered, running the chain of the line
  \<^verbatim>\<open>service disable commandexec\<close> throws the \<^verbatim>\<open>OSError\<close> that names \<^verbatim>\<open>commandexec\<close> as
  critical; the state changes by the two diagnostic records of \<open>verify\<close> and
  \<open>runSingle\<close> only. Enqueued on a fresh execution service, the chain is run, the
  message is added to the output buffer as a line of type \<^verbatim>\<open>error\<close>, the promise is
  resolved with \<^verbatim>\<open>null\<close>, and the execution service is still enabled, as are the other
  services that were.
\<close>

theorem disable_commandexec_needs_confirm:
  assumes cmd: "cmd_enabled s"
    and def: "obj_get (commands s) ''service'' = Some (service_body, HService)"
    and reg: "''service'' \<in> set (registered_names s)"
  shows "runChain num (builtin_call ts ext) (parseCommand ''service disable commandexec'') False s =
           (Throw (OSError (critical_message ''commandexec'')),
            parseCommand ''service disable commandexec'',
            diag_record ''CommandExecService_run service'' (diag_record ''CommandService_verify service'' s))
    \<and> (exec_fresh s \<and> out_enabled s \<longrightarrow>
         (\<exists>s1. enqueue (parseCommand ''service disable commandexec'') s = Inr (Some 0, s1)
            \<and> buffer (run_frame num (builtin_call ts ext) 0 s1)
                = buffer s @ [\<lparr>otype = ''error'', content = critical_message ''commandexec'', loc = None\<rparr>]
            \<and> history (run_frame num (builtin_call ts ext) 0 s1) = [Started 0, Resolved 0 RNull]
            \<and> exec_enabled (run_frame num (builtin_call ts ext) 0 s1)
            \<and> cmd_enabled (run_frame num (builtin_call ts ext) 0 s1)
            \<and> out_enabled (run_frame num (builtin_call ts ext) 0 s1)
            \<and> diag_enabled (run_frame num (builtin_call ts ext) 0 s1) = diag_enabled s
            \<and> savior_enabled (run_frame num (builtin_call ts ext) 0 s1) = savior_enabled s))"
proof -
  let ?c = "parseCommand ''service disable commandexec''"
  let ?msg = "critical_message ''commandexec''"
  have rc: "runChain num (builtin_call ts ext) ?c False st =
           (Throw (OSError ?msg), ?c,
            diag_record ''CommandExecService_run service'' (diag_record ''CommandService_verify service'' st))"
    if "cmd_enabled st" "obj_get (commands st) ''service'' = Some (service_body, HService)"
       "''service'' \<in> set (registered_names st)" for st
    unfolding parse_service_disable
    by (simp add: runChain_def runSingle_service_disable[OF that])
  have e2e: "\<exists>s1. enqueue ?c s = Inr (Some 0, s1)
            \<and> buffer (run_frame num (builtin_call ts ext) 0 s1)
                = buffer s @ [\<lparr>otype = ''error'', content = ?msg, loc = None\<rparr>]
            \<and> history (run_frame num (builtin_call ts ext) 0 s1) = [Started 0, Resolved 0 RNull]
            \<and> exec_enabled (run_frame num (builtin_call ts ext) 0 s1)
            \<and> cmd_enabled (run_frame num (builtin_call ts ext) 0 s1)
            \<and> out_enabled (run_frame num (builtin_call ts ext) 0 s1)
            \<and> diag_enabled (run_frame num (builtin_call ts ext) 0 s1) = diag_enabled s
            \<and> savior_enabled (run_frame num (builtin_call ts ext) 0 s1) = savior_enabled s"
    if fresh: "exec_fresh s" and out: "out_enabled s"
  proof -
    let ?s1 = "(diag_record (''CommandExecService_enqueue '' @ simplify ?c) (s\<lparr>next_promise := 1\<rparr>))
             \<lparr>queue := [], running := True, currentAbort := Some 0, currentReject := Some 0,
               frames := [(0, ?c)], history := [Started 0]\<rparr>"
    let ?s2 = "diag_record ''CommandExecService_run service'' (diag_record ''CommandService_verify service'' ?s1)"
    have en: "enqueue ?c s = Inr (Some 0, ?s1)" by (rule enqueue_fresh[OF fresh])
    have ex: "exec_enabled s" "exec_os s" "aborted s = []" using fresh by (simp_all add: exec_fresh_def)
    have pre: "cmd_enabled ?s1" "obj_get (commands ?s1) ''service'' = Some (service_body, HService)"
      "''service'' \<in> set (registered_names ?s1)"
      using cmd def reg by (simp_all add: registered_names_def)
    have rc1: "runChain num (builtin_call ts ext) ?c False ?s1 = (Throw (OSError ?msg), ?c, ?s2)"
      by (rule rc[OF pre])
    have fr1: "frames ?s1 = [(0, ?c)]" by simp
    have ab1: "(0 \<in> set (aborted ?s1)) = False" using ex by simp
    have rf: "run_frame num (builtin_call ts ext) 0 ?s1 = settle 0 (Throw (OSError ?msg)) ?s2"
      by (simp only: run_frame_single[OF fr1] ab1 rc1 prod.case)
    have fr2: "frames ?s2 = [(0, ?c)]" by simp
    have ab2: "0 \<notin> set (aborted ?s2)" using ex by simp
    let ?s3 = "finish_frame 0 0 ?c (Throw (OSError ?msg)) ?s2"
    have st: "settle 0 (Throw (OSError ?msg)) ?s2 = runNext ?s3"
      using settle_frame[OF fr2, of "Throw (OSError ?msg)"] ab2 by simp
    have q3: "queue ?s3 = []" using finish_frame_exec(5)[OF fr2, of "Throw (OSError ?msg)"] by simp
    have rn: "runNext ?s3 = ?s3" using q3 by (simp add: runNext_def)
    have fin: "run_frame num (builtin_call ts ext) 0 ?s1 = ?s3" using rf st rn by simp
    have b: "buffer ?s3 = buffer s @ [\<lparr>otype = ''error'', content = ?msg, loc = None\<rparr>]"
      using out by (simp add: finish_frame_def resolve_def output_add_enabled)
    have h: "history ?s3 = [Started 0, Resolved 0 RNull]"
      using finish_frame_exec(4)[OF fr2, of "Throw (OSError ?msg)"] by (simp add: resolved_value_def)
    have f1: "exec_enabled ?s3" using finish_frame_exec(8)[OF fr2, of "Throw (OSError ?msg)"] ex by simp
    have f2: "cmd_enabled ?s3" using cmd by (simp add: finish_frame_def resolve_def)
    have f3: "out_enabled ?s3" using out by (simp add: finish_frame_def resolve_def)
    have f4: "diag_enabled ?s3 = diag_enabled s" by (simp add: finish_frame_def resolve_def)
    have f5: "savior_enabled ?s3 = savior_enabled s" by (simp add: finish_frame_def resolve_def)
    show ?thesis
      using en b h f1 f2 f3 f4 f5 unfolding fin[symmetric] by blast
  qed
  show ?thesis using rc[OF cmd def reg] e2e by blast
qed


lemma booted_facts:
  "cmd_enabled booted"
  "obj_get (commands booted) ''service'' = Some (service_body, HService)"
  "''service'' \<in> set (registered_names booted)"
  "exec_fresh booted"
  "out_enabled booted"
  "buffer booted = []"
  "exec_enabled booted"
  by code_simp+

lemma os_constructor_booted: "os_constructor 0 = Inr booted"
  by code_simp

theorem disable_commandexec_needs_confirm_witness:
  "os_constructor 0 = Inr booted
   \<and> exec_enabled booted
   \<and> fst (runChain digits_number (builtin_call (\<lambda>t. ''T'') (\<lambda>h ps s. (Ret RUndefined, s)))
            (parseCommand ''service disable commandexec'') False booted)
       = Throw (OSError (critical_message ''commandexec''))
   \<and> exec_enabled (snd (snd (runChain digits_number (builtin_call (\<lambda>t. ''T'') (\<lambda>h ps s. (Ret RUndefined, s)))
            (parseCommand ''service disable commandexec'') False booted)))
   \<and> (\<exists>s1. enqueue (parseCommand ''service disable commandexec'') booted = Inr (Some 0, s1)
         \<and> buffer (run_frame digits_number (builtin_call (\<lambda>t. ''T'') (\<lambda>h ps s. (Ret RUndefined, s))) 0 s1)
             = [\<lparr>otype = ''error'', content = critical_message ''commandexec'', loc = None\<rparr>]
         \<and> exec_enabled (run_frame digits_number (builtin_call (\<lambda>t. ''T'') (\<lambda>h ps s. (Ret RUndefined, s))) 0 s1))"
proof -
  let ?call = "builtin_call (\<lambda>t. ''T'') (\<lambda>h ps s. (Ret RUndefined, s))"
  note t = disable_commandexec_needs_confirm[OF booted_facts(1,2,3), of digits_number "\<lambda>t. ''T''"
      "\<lambda>h ps s. (Ret RUndefined, s)"]
  from t have rc: "runChain digits_number ?call (parseCommand ''service disable commandexec'') False booted =
           (Throw (OSError (critical_message ''commandexec'')),
            parseCommand ''service disable commandexec'',
            diag_record ''CommandExecService_run service''
              (diag_record ''CommandService_verify service'' booted))"
    by blast
  from t booted_facts(4,5) obtain s1 where
    e: "enqueue (parseCommand ''service disable commandexec'') booted = Inr (Some 0, s1)"
    and b: "buffer (run_frame digits_number ?call 0 s1)
             = buffer booted @ [\<lparr>otype = ''error'', content = critical_message ''commandexec'', loc = None\<rparr>]"
    and x: "exec_enabled (run_frame digits_number ?call 0 s1)"
    by blast
  have "exec_enabled (snd (snd (runChain digits_number ?call
            (parseCommand ''service disable commandexec'') False booted)))"
    unfolding rc using booted_facts(7) by simp
  moreover have "fst (runChain digits_number ?call
            (parseCommand ''service disable commandexec'') False booted)
       = Throw (OSError (critical_message ''commandexec''))"
    unfolding rc by simp
  ultimately show ?thesis
    using os_constructor_booted booted_facts(6,7) e b x by auto
qed

section \<open>Registering a command twice\<close>


lemma registerCommand_appends:
  assumes "cmd_enabled s" "obj_get (commands s) name = Some (b, fn)"
    "\<forall>m \<in> set (registeredCommands s). \<exists>ns. m = MSet ns"
  shows "\<exists>s'. registerCommand name s = Inr s'
      \<and> registeredCommands s' = registeredCommands s @ [MSet (name # filter (\<lambda>a. a \<noteq> name) (alias_names b))]
      \<and> cmd_enabled s' \<and> commands s' = commands s"
proof -
  have "MStr name \<notin> set (registeredCommands s)" using assms(3) by auto
  then show ?thesis using assms(1,2) by (simp add: registerCommand_def Let_def)
qed

text \<open>
  Claim C4, evaluated where it fails. With \<^verbatim>\<open>clear\<close> (alias \<^verbatim>\<open>cls\<close>) defined and nothing
  registered, registering \<^verbatim>\<open>clear\<close> twice leaves two members in
  \<^verbatim>\<open>registeredCommands\<close>, both the pair \<^verbatim>\<open>{clear, cls}\<close>: the guard of \<open>registerCommand\<close>
  looks for the string among members that are all \<^verbatim>\<open>Set\<close> objects.
\<close>

theorem register_twice_two_pairs:
  "(case bulkRegister [''clear'', ''clear''] clear_defined of
      Inr s \<Rightarrow> registeredCommands s
    | Inl e \<Rightarrow> [])
   = [MSet [''clear'', ''cls''], MSet [''clear'', ''cls'']]"
  by (simp add: bulkRegister_def registerCommand_def clear_defined_def defineCommand_def
      diag_record_def blank_state_def plain_body_def obj_get_def alias_names_def Let_def)

section \<open>The display of the diagnostics log\<close>


lemma runs_replicate: "runs (replicate (Suc k) l) = [(l, Suc k)]"
  by (induction k) simp_all

lemma runs_Cons_nonempty: "runs (x # xs) \<noteq> []"
  by (simp split: list.splits)

lemma runs_hd: "runs (x # xs) = (y, n) # rs \<Longrightarrow> y = x"
  by (auto split: list.splits if_splits)

lemma runs_replicate_other:
  "x \<noteq> l \<Longrightarrow> runs (replicate (Suc k) l @ x # ys) = (l, Suc k) # runs (x # ys)"
proof (induction k)
  case 0
  obtain y n rs where r: "runs (x # ys) = (y, n) # rs"
    using runs_Cons_nonempty[of x ys] by (cases "runs (x # ys)") auto
  with runs_hd[OF r] 0 show ?case by simp
next
  case (Suc k)
  then show ?case by simp
qed

text \<open>
  What the first loop of the \<^verbatim>\<open>logs\<close> branch computes: the runs of the log, each shown
  with its suffix, but the last run without one.
\<close>

lemma compress_loop_runs:
  "compress_loop xs (cs @ [l]) k =
     cs @ map show_run (butlast (runs (replicate (Suc k) l @ xs)))
        @ [fst (last (runs (replicate (Suc k) l @ xs)))]"
proof (induction xs arbitrary: cs l k)
  case Nil
  then show ?case by (simp add: runs_replicate del: replicate.simps)
next
  case (Cons x xs)
  show ?case
  proof (cases "x = l")
    case True
    have e: "replicate (Suc k) l @ l # xs = replicate (Suc (Suc k)) l @ xs"
      by (simp add: replicate_app_Cons_same)
    have "compress_loop (x # xs) (cs @ [l]) k = compress_loop xs (cs @ [l]) (Suc k)"
      using True by simp
    also have "\<dots> = cs @ map show_run (butlast (runs (replicate (Suc (Suc k)) l @ xs)))
        @ [fst (last (runs (replicate (Suc (Suc k)) l @ xs)))]"
      by (rule Cons.IH)
    finally show ?thesis unfolding True e .
  next
    case False
    have r: "runs (replicate (Suc k) l @ x # xs) = (l, Suc k) # runs (replicate (Suc 0) x @ xs)"
      using runs_replicate_other[OF False, of k xs] by simp
    have ne: "runs (replicate (Suc 0) x @ xs) \<noteq> []" using runs_Cons_nonempty[of x xs] by simp
    show ?thesis
    proof (cases "k > 0")
      case True
      have "compress_loop (x # xs) (cs @ [l]) k =
              compress_loop xs ((cs @ [l @ '' (x'' @ show_nat (k + 1) @ '')'']) @ [x]) 0"
        using False True by simp
      also have "\<dots> = (cs @ [l @ '' (x'' @ show_nat (k + 1) @ '')''])
            @ map show_run (butlast (runs (replicate (Suc 0) x @ xs)))
            @ [fst (last (runs (replicate (Suc 0) x @ xs)))]"
        by (rule Cons.IH)
      finally show ?thesis unfolding r using ne True by (simp add: show_run_def del: replicate.simps runs.simps)
    next
      case False
      then have k0: "k = 0" by simp
      have "compress_loop (x # xs) (cs @ [l]) k = compress_loop xs ((cs @ [l]) @ [x]) 0"
        using \<open>x \<noteq> l\<close> k0 by simp
      also have "\<dots> = (cs @ [l])
            @ map show_run (butlast (runs (replicate (Suc 0) x @ xs)))
            @ [fst (last (runs (replicate (Suc 0) x @ xs)))]"
        by (rule Cons.IH)
      finally show ?thesis unfolding r using ne k0 by (simp add: show_run_def del: replicate.simps runs.simps)
    qed
  qed
qed

lemma compress_runs:
  "compress_loop (x # xs) [] 0 = map show_run (butlast (runs (x # xs))) @ [fst (last (runs (x # xs)))]"
  using compress_loop_runs[of xs "[]" x 0] by simp

lemma service_logs_keeps_log:
  "diagnosticData (snd (service_logs ts ps s)) =
     (if truthy (obj_get (p_flags ps) ''clear'') then [] else diagnosticData s)"
  by (simp add: service_logs_def Let_def)


lemma char_of_50: "char_of (50 :: nat) = CHR ''2''"
  by code_simp

text \<open>
  Claim C8, evaluated where it fails. A log of two identical entries is shown as one line
  without the suffix \<^verbatim>\<open>(x2)\<close>: the first loop of the \<^verbatim>\<open>logs\<close> branch appends the suffix of
  a run only when a different line follows it, and nothing does so after the loop. With a
  third, different entry the same run is shown as \<^verbatim>\<open>X (x2)\<close>, and the repeated time stamp
  of the next line is blanked.
\<close>

theorem logs_trailing_run_unmarked:
  "fst (service_logs (\<lambda>t. ''T'') logs_params
          ((blank_state 0 :: builtin os_state)\<lparr>diagnosticData := [(''X'', 5), (''X'', 5)]\<rparr>))
     = Ret (RArr [\<lparr>otype = ''line'', content = ''X'', loc = Some ''[T]''\<rparr>])
   \<and> fst (service_logs (\<lambda>t. ''T'') logs_params
          ((blank_state 0 :: builtin os_state)\<lparr>diagnosticData := [(''X'', 5), (''X'', 5), (''Y'', 5)]\<rparr>))
     = Ret (RArr [\<lparr>otype = ''line'', content = ''X (x2)'', loc = Some ''[T]''\<rparr>,
                  \<lparr>otype = ''line'', content = ''Y'', loc = Some ''[ ]''\<rparr>])
   \<and> compress_loop [a, a] [] 0 = [a]
   \<and> compress_loop [a, a, a] [] 0 = [a]"
  by (simp add: service_logs_def logs_params_def getData_def format_entry_def truthy_def
      obj_get_def blank_state_def match_stamp_def split_line_def show_nat.simps char_of_50)

section \<open>Missing arguments\<close>


lemma verify_positional_missing:
  assumes "prequired p" "length args \<le> i + length pre"
    "\<forall>j < length pre. (prequired (pre ! j) \<longrightarrow> i + j < length args)
        \<and> (\<forall>opts. poptions (pre ! j) = Some opts \<longrightarrow> i + j < length args \<and> args ! (i + j) \<in> set opts)"
  shows "verify_positional (pre @ p # post) i args = Some (missing_message p)"
  using assms
proof (induction pre arbitrary: i)
  case Nil
  then show ?case by (simp add: missing_message_def)
next
  case (Cons q pre)
  from Cons.prems(3)[rule_format, of 0]
  have q: "prequired q \<longrightarrow> i < length args"
    "\<forall>opts. poptions q = Some opts \<longrightarrow> i < length args \<and> args ! i \<in> set opts"
    by simp_all
  have rest: "\<forall>j < length pre. (prequired (pre ! j) \<longrightarrow> Suc i + j < length args)
        \<and> (\<forall>opts. poptions (pre ! j) = Some opts \<longrightarrow> Suc i + j < length args \<and> args ! (Suc i + j) \<in> set opts)"
  proof (intro allI impI)
    fix j assume "j < length pre"
    then have "Suc j < length (q # pre)" by simp
    from Cons.prems(3)[rule_format, OF this] show "(prequired (pre ! j) \<longrightarrow> Suc i + j < length args)
        \<and> (\<forall>opts. poptions (pre ! j) = Some opts \<longrightarrow> Suc i + j < length args \<and> args ! (Suc i + j) \<in> set opts)"
      by simp
  qed
  have len: "length args \<le> Suc i + length pre" using Cons.prems(2) by simp
  have ih: "verify_positional (pre @ p # post) (Suc i) args = Some (missing_message p)"
    by (rule Cons.IH[OF Cons.prems(1) len rest])
  show ?case using q ih by (cases "poptions q") auto
qed

lemma verify_positional_fails:
  assumes "prequired p" "length args \<le> i + length pre"
  shows "verify_positional (pre @ p # post) i args \<noteq> None"
  using assms
proof (induction pre arbitrary: i)
  case Nil
  then show ?case by simp
next
  case (Cons q pre)
  have "verify_positional (pre @ p # post) (Suc i) args \<noteq> None"
    using Cons.IH[of "Suc i"] Cons.prems by simp
  then show ?case by (cases "poptions q") auto
qed

lemma verify_positional_pipeable:
  "verify_positional (map (\<lambda>q. q\<lparr>pipeableFrom := f q\<rparr>) sch) i args = verify_positional sch i args"
  by (induction sch arbitrary: i) (simp_all split: option.splits)

lemma verify_positional_error:
  assumes "cmd_enabled s" "obj_get (commands s) name = Some (b, fn)"
    "verify_positional (positionalSchema (bschema b)) 0 args = Some err"
  shows "fst (verify num (Some name) args flags s) = VInvalid err"
  using assms by (simp add: verify_def js_str_def Let_def)

text \<open>
  Claim C6, as amended. Let the registry be enabled, the command be defined, and \<open>p\<close> be a
  required positional parameter of its schema at a position for which no argument was
  supplied. Then \<open>verify\<close> returns \<^verbatim>\<open>valid = false\<close>. The error is
  \<^verbatim>\<open>Missing required argument\<close> with the name of \<open>p\<close> when every positional parameter
  before \<open>p\<close> has its argument if it is required and an allowed value if it declares
  \<^verbatim>\<open>options\<close>; otherwise the loop has stopped at that earlier parameter. The attribute
  \<^verbatim>\<open>pipeableFrom\<close> is not read: changing it in any way changes nothing.
\<close>

theorem missing_required_argument:
  assumes en: "cmd_enabled s"
    and def: "obj_get (commands s) name = Some (b, fn)"
    and sch: "positionalSchema (bschema b) = pre @ p # post"
    and req: "prequired p"
    and few: "length args \<le> length pre"
  shows "(\<exists>err. fst (verify num (Some name) args flags s) = VInvalid err)
    \<and> ((\<forall>j < length pre. (prequired (pre ! j) \<longrightarrow> j < length args)
           \<and> (\<forall>opts. poptions (pre ! j) = Some opts \<longrightarrow> j < length args \<and> args ! j \<in> set opts)) \<longrightarrow>
         fst (verify num (Some name) args flags s) = VInvalid (missing_message p))
    \<and> (\<forall>f. verify_positional (map (\<lambda>q. q\<lparr>pipeableFrom := f q\<rparr>) (positionalSchema (bschema b))) 0 args
           = verify_positional (positionalSchema (bschema b)) 0 args)"
proof -
  have "verify_positional (pre @ p # post) 0 args \<noteq> None"
    using verify_positional_fails[OF req, of args 0 pre post] few by simp
  then obtain err where "verify_positional (positionalSchema (bschema b)) 0 args = Some err"
    using sch by auto
  then have a: "\<exists>err. fst (verify num (Some name) args flags s) = VInvalid err"
    using verify_positional_error[OF en def] by blast
  have b: "fst (verify num (Some name) args flags s) = VInvalid (missing_message p)"
    if ok: "\<forall>j < length pre. (prequired (pre ! j) \<longrightarrow> j < length args)
           \<and> (\<forall>opts. poptions (pre ! j) = Some opts \<longrightarrow> j < length args \<and> args ! j \<in> set opts)"
  proof -
    have "verify_positional (pre @ p # post) 0 args = Some (missing_message p)"
      using verify_positional_missing[OF req, of args 0 pre post] few ok by simp
    then show ?thesis using verify_positional_error[OF en def] sch by simp
  qed
  show ?thesis using a b verify_positional_pipeable by blast
qed


theorem missing_required_argument_witness:
  "fst (verify digits_number (Some ''print'') [] [] booted)
     = VInvalid (''Missing required argument: '' @ [dquote] @ ''text'' @ [dquote])
   \<and> fst (verify digits_number (Some ''open'') [''r''] [] open_defined)
     = VInvalid (''Missing required argument: '' @ [dquote] @ ''file'' @ [dquote])
   \<and> pipeableFrom file_param = Some ''text''"
proof -
  let ?text = "(positional ''text'' True)\<lparr>pipeableFrom := Some ''text''\<rparr>"
  let ?loc = "(positional ''loc_text'' False)\<lparr>pshort := Some ''l'', pdatatype := Some ''string''\<rparr>"
  have en: "cmd_enabled booted" by (rule booted_facts(1))
  have def: "obj_get (commands booted) ''print'' = Some (plain_body [?text, ?loc], HPrint)"
    by code_simp
  have sch: "positionalSchema (bschema (plain_body [?text, ?loc])) = [] @ ?text # [?loc]"
    by (simp add: positionalSchema_def plain_body_def positional_def)
  have req: "prequired ?text" by (simp add: positional_def)
  from missing_required_argument[OF en def sch req, of "[]" digits_number "[]"]
  have 1: "fst (verify digits_number (Some ''print'') [] [] booted) = VInvalid (missing_message ?text)"
    by simp
  have en2: "cmd_enabled open_defined" by (simp add: open_defined_def blank_state_def)
  have def2: "obj_get (commands open_defined) ''open'' = Some (plain_body [mode_param, file_param], RNull)"
    by (simp add: open_defined_def blank_state_def obj_get_def)
  have sch2: "positionalSchema (bschema (plain_body [mode_param, file_param])) = [mode_param] @ file_param # []"
    by (simp add: positionalSchema_def plain_body_def positional_def mode_param_def file_param_def)
  have req2: "prequired file_param" by (simp add: positional_def file_param_def)
  from missing_required_argument[OF en2 def2 sch2 req2, of "[''r'']" digits_number "[]"]
  have 2: "fst (verify digits_number (Some ''open'') [''r''] [] open_defined) = VInvalid (missing_message file_param)"
    by (simp add: mode_param_def positional_def)
  show ?thesis using 1 2
    by (simp add: missing_message_def positional_def file_param_def)
qed

text \<open>
  The claim as written fails when an earlier parameter declares allowed values: for
  \<^verbatim>\<open>open\<close> without arguments, or with the one argument \<^verbatim>\<open>x\<close>, the required \<^verbatim>\<open>file\<close> has no
  argument, and the error names \<^verbatim>\<open>mode\<close> as invalid instead.
\<close>

theorem missing_required_argument_counterexample:
  "fst (verify digits_number (Some ''open'') [] [] open_defined)
     = VInvalid (''Invalid value for argument '' @ [dquote] @ ''mode'' @ [dquote] @ '': expected one of '' @
                 [dquote] @ ''r'' @ [dquote] @ '', '' @ [dquote] @ ''w'' @ [dquote] @
                 '', got '' @ [dquote] @ ''undefined'' @ [dquote])
   \<and> fst (verify digits_number (Some ''open'') [''x''] [] open_defined)
     = VInvalid (''Invalid value for argument '' @ [dquote] @ ''mode'' @ [dquote] @ '': expected one of '' @
                 [dquote] @ ''r'' @ [dquote] @ '', '' @ [dquote] @ ''w'' @ [dquote] @
                 '', got '' @ [dquote] @ ''x'' @ [dquote])
   \<and> fst (verify digits_number (Some ''open'') [] [] open_defined) \<noteq> VInvalid (missing_message file_param)
   \<and> fst (verify digits_number (Some ''open'') [''x''] [] open_defined) \<noteq> VInvalid (missing_message file_param)"
  by (simp add: verify_def open_defined_def blank_state_def obj_get_def plain_body_def
      positionalSchema_def mode_param_def file_param_def positional_def js_str_def
      diag_record_def missing_message_def Let_def)

section \<open>What happens to a fragment\<close>














end
